theory Spec2Isabelle
  imports Complex_Main
begin

section \<open>JavaScript values, strings and numbers\<close>

text \<open>
  Three characters that cannot stand inside a HOL string literal are named: the double
  quote, the single quote and the line feed. The SQL texts below are the template
  literals of the source, character by character.
\<close>

abbreviation DQ :: char where "DQ \<equiv> CHR 0x22"
abbreviation SQ :: char where "SQ \<equiv> CHR 0x27"
abbreviation NL :: char where "NL \<equiv> CHR 0x0A"

text \<open>
  The values a request body carries and the values handed to the store as bind
  parameters. A JavaScript number is kept as an exact rational.
\<close>

datatype jsval = JNull | JBool bool | JNum rat | JStr string

text \<open>
  An object is the list of its own enumerable properties in the order \<open>Object.keys\<close>
  yields them; a JavaScript object never holds a key twice, so the lists of interest
  have distinct keys. A property that is not there reads as \<open>undefined\<close>, which is
  \<open>None\<close>.
\<close>

type_synonym 'v js_object = "(string \<times> 'v) list"

definition js_get :: "'v js_object \<Rightarrow> string \<Rightarrow> 'v option" where
  "js_get obj k = map_of obj k"

definition js_keys :: "'v js_object \<Rightarrow> string list" where
  "js_keys obj = map fst obj"

definition js_values :: "'v js_object \<Rightarrow> 'v list" where
  "js_values obj = map snd obj"

text \<open>Decimal notation of a natural number and of an integer, as \<open>String(n)\<close> prints it.\<close>

definition digit_char :: "nat \<Rightarrow> char" where
  "digit_char d = ''0123456789'' ! d"

fun show_nat :: "nat \<Rightarrow> string" where
  "show_nat n = (if n < 10 then [digit_char n] else show_nat (n div 10) @ [digit_char (n mod 10)])"

declare show_nat.simps [simp del]

definition show_int :: "int \<Rightarrow> string" where
  "show_int i = (if i < 0 then ''-'' @ show_nat (nat (- i)) else show_nat (nat i))"

text \<open>
  \<open>parseInt(s)\<close> with no radix: leading white space is skipped, one sign is read, a
  prefix \<open>0x\<close> or \<open>0X\<close> selects radix 16, and the longest run of digits of the radix is
  the value; with no digit the result is \<open>NaN\<close>, here \<open>None\<close>. The model computes the
  mathematical integer, which is what JavaScript returns for magnitudes up to
  \<open>2^53\<close> (\<open>safe_integer\<close>); beyond that JavaScript rounds to a double.
\<close>

definition js_white_space :: "char \<Rightarrow> bool" where
  "js_white_space c \<longleftrightarrow> c \<in> set [CHR 0x20, CHR 0x09, CHR 0x0A, CHR 0x0B, CHR 0x0C, CHR 0x0D]"

definition digit_of :: "char \<Rightarrow> nat option" where
  "digit_of c = map_of
     [(CHR ''0'', 0), (CHR ''1'', 1), (CHR ''2'', 2), (CHR ''3'', 3), (CHR ''4'', 4),
      (CHR ''5'', 5), (CHR ''6'', 6), (CHR ''7'', 7), (CHR ''8'', 8), (CHR ''9'', 9),
      (CHR ''a'', 10), (CHR ''b'', 11), (CHR ''c'', 12), (CHR ''d'', 13), (CHR ''e'', 14),
      (CHR ''f'', 15), (CHR ''A'', 10), (CHR ''B'', 11), (CHR ''C'', 12), (CHR ''D'', 13),
      (CHR ''E'', 14), (CHR ''F'', 15)] c"

definition is_digit :: "nat \<Rightarrow> char \<Rightarrow> bool" where
  "is_digit radix c = (case digit_of c of None \<Rightarrow> False | Some d \<Rightarrow> d < radix)"

definition digits_value :: "nat \<Rightarrow> string \<Rightarrow> nat" where
  "digits_value radix s = foldl (\<lambda>a c. a * radix + the (digit_of c)) 0 s"

definition parseInt :: "string \<Rightarrow> int option" where
  "parseInt str =
     (let s = dropWhile js_white_space str;
          neg = (take 1 s = ''-'');
          s1 = (if take 1 s = ''-'' \<or> take 1 s = ''+'' then drop 1 s else s);
          hex = (take 2 s1 = ''0x'' \<or> take 2 s1 = ''0X'');
          radix = (if hex then 16 else 10);
          s2 = (if hex then drop 2 s1 else s1);
          z = takeWhile (is_digit radix) s2
      in if z = [] then None
         else Some ((if neg then - 1 else 1) * int (digits_value radix z)))"


text \<open>A template literal prints \<open>NaN\<close> for \<open>NaN\<close>, an integer in decimal (JavaScript
  does so below \<open>10^21\<close>), and \<open>undefined\<close> for a property that is not there.\<close>

definition number_text :: "int option \<Rightarrow> string" where
  "number_text n = (case n of None \<Rightarrow> ''NaN'' | Some i \<Rightarrow> show_int i)"

definition template :: "string option \<Rightarrow> string" where
  "template v = (case v of None \<Rightarrow> ''undefined'' | Some s \<Rightarrow> s)"

text \<open>\<open>Array.prototype.join\<close> and \<open>Array.prototype.map\<close> with the index.\<close>

fun join :: "string \<Rightarrow> string list \<Rightarrow> string" where
  "join sep [] = []"
| "join sep [x] = x"
| "join sep (x # y # ys) = x @ sep @ join sep (y # ys)"

fun map_idx :: "('a \<Rightarrow> nat \<Rightarrow> 'b) \<Rightarrow> nat \<Rightarrow> 'a list \<Rightarrow> 'b list" where
  "map_idx f idx [] = []"
| "map_idx f idx (x # xs) = f x idx # map_idx f (Suc idx) xs"

section \<open>Errors\<close>

text \<open>
  Modelled from the spec: the error classes of \<open>expressError\<close>, a module that is not
  among the sources. Section 7 of the specification names the two the models throw,
  the bad-request and the not-found error; every other failure is an error of the
  store, which the models let through unchanged. Messages are left out.
\<close>

datatype store_error =
    SyntaxError
  | UndefinedTable
  | UndefinedColumn
  | DatatypeMismatch
  | NotNullViolation
  | UniqueViolation
  | ForeignKeyViolation
  | CheckViolation
  | MissingParameter

datatype error = BadRequestError | NotFoundError | StoreError store_error

section \<open>helpers/sql.js\<close>

record 'v sql_update =
  setCols :: string
  "values" :: "'v list"

text \<open>\<open>jsToSql[colName] || colName\<close>: the mapped name, unless there is none or it is
  the empty string.\<close>

definition column_for :: "(string \<rightharpoonup> string) \<Rightarrow> string \<Rightarrow> string" where
  "column_for jsToSql colName =
     (case jsToSql colName of None \<Rightarrow> colName | Some c \<Rightarrow> if c = [] then colName else c)"

definition sqlForPartialUpdate ::
    "'v js_object \<Rightarrow> (string \<rightharpoonup> string) \<Rightarrow> error + 'v sql_update" where
  "sqlForPartialUpdate dataToUpdate jsToSql =
     (let keys = js_keys dataToUpdate in
      if length keys = 0 then Inl BadRequestError
      else
        let cols = map_idx
              (\<lambda>colName idx. [DQ] @ column_for jsToSql colName @ [DQ] @ ''=$'' @ show_nat (idx + 1))
              0 keys
        in Inr \<lparr>setCols = join '', '' cols, values = js_values dataToUpdate\<rparr>)"

section \<open>The relational store\<close>

text \<open>
  Modelled from the spec: the relational store behind \<open>db.query\<close>, which is not part
  of the sources. Section 6 of the specification gives its interface: one operation
  that takes an SQL text with positional placeholders and a list of bind values and
  answers with a list of rows or an error. The model reads the text as the store does:
  it splits it into tokens, parses the statement and runs it on the two tables of
  section 3. It covers the SQL fragment the models use (one-table \<open>SELECT\<close>, \<open>INSERT\<close>,
  \<open>UPDATE\<close> and \<open>DELETE\<close> with \<open>RETURNING\<close>, conditions built from comparisons,
  \<open>ILIKE\<close>, \<open>BETWEEN\<close>, \<open>IS [NOT] NULL\<close>, \<open>AND\<close> and \<open>OR\<close>); a text outside the
  fragment is answered with \<open>SyntaxError\<close>.
\<close>

subsection \<open>Tokens\<close>

datatype keyword =
    K_SELECT | K_FROM | K_WHERE | K_ORDER | K_BY | K_AND | K_OR | K_NOT | K_NULL | K_IS
  | K_ILIKE | K_BETWEEN | K_AS | K_INSERT | K_INTO | K_VALUES | K_RETURNING | K_UPDATE
  | K_SET | K_DELETE

datatype cmp_op = CEq | CNe | CLt | CLe | CGt | CGe

datatype token =
    TKw keyword
  | TIdent string
  | TStr string
  | TInt int
  | TParam nat
  | TOp cmp_op
  | TComma
  | TLParen
  | TRParen

definition keyword_of :: "string \<Rightarrow> keyword option" where
  "keyword_of w = map_of
     [(''select'', K_SELECT), (''from'', K_FROM), (''where'', K_WHERE), (''order'', K_ORDER),
      (''by'', K_BY), (''and'', K_AND), (''or'', K_OR), (''not'', K_NOT), (''null'', K_NULL),
      (''is'', K_IS), (''ilike'', K_ILIKE), (''between'', K_BETWEEN), (''as'', K_AS),
      (''insert'', K_INSERT), (''into'', K_INTO), (''values'', K_VALUES),
      (''returning'', K_RETURNING), (''update'', K_UPDATE), (''set'', K_SET),
      (''delete'', K_DELETE)] w"

definition sql_space :: "char \<Rightarrow> bool" where
  "sql_space c \<longleftrightarrow> c \<in> set [CHR 0x20, CHR 0x09, CHR 0x0A, CHR 0x0C, CHR 0x0D]"

definition is_upper :: "char \<Rightarrow> bool" where
  "is_upper c \<longleftrightarrow> c \<in> set ''ABCDEFGHIJKLMNOPQRSTUVWXYZ''"

definition is_lower :: "char \<Rightarrow> bool" where
  "is_lower c \<longleftrightarrow> c \<in> set ''abcdefghijklmnopqrstuvwxyz''"

definition ident_start :: "char \<Rightarrow> bool" where
  "ident_start c \<longleftrightarrow> is_upper c \<or> is_lower c \<or> c = CHR ''_''"

definition ident_char :: "char \<Rightarrow> bool" where
  "ident_char c \<longleftrightarrow> ident_start c \<or> is_digit 10 c"

text \<open>Lower case of the ASCII letters; every other character stays.\<close>

definition lower_char :: "char \<Rightarrow> char" where
  "lower_char c =
     (case map_of (zip ''ABCDEFGHIJKLMNOPQRSTUVWXYZ'' ''abcdefghijklmnopqrstuvwxyz'') c of
        None \<Rightarrow> c | Some l \<Rightarrow> l)"

definition lower :: "string \<Rightarrow> string" where
  "lower s = map lower_char s"

text \<open>
  The text between two quotes \<open>q\<close>, the opening one already read: a doubled quote
  stands for the quote itself. The result is the text and what follows the closing
  quote, or nothing when the closing quote is missing.
\<close>

fun quoted :: "char \<Rightarrow> string \<Rightarrow> (string \<times> string) option" where
  "quoted q [] = None"
| "quoted q [c] = (if c = q then Some ([], []) else None)"
| "quoted q (c # d # cs) =
     (if c = q then
        (if d = q then map_option (\<lambda>(s, r). (q # s, r)) (quoted q cs)
         else Some ([], d # cs))
      else map_option (\<lambda>(s, r). (c # s, r)) (quoted q (d # cs)))"

lemma quoted_shorter: "quoted q s = Some (lit, r) \<Longrightarrow> length r < length s"
proof (induction q s arbitrary: lit r rule: quoted.induct)
  case (1 q)
  then show ?case by simp
next
  case (2 q c)
  then show ?case by (simp split: if_splits)
next
  case (3 q c d cs)
  then show ?case by (fastforce split: if_splits)
qed

text \<open>
  The tokens of a text, or nothing when the text has a character or an open quote
  the store cannot read. An unquoted word is a keyword or an identifier in lower
  case; a quoted identifier keeps its case; \<open>--\<close> starts a comment that runs to the
  end of the line; a minus sign before a digit belongs to the number.
\<close>

function lex :: "string \<Rightarrow> token list option" where
  "lex [] = Some []"
| "lex (c # cs) =
     (if sql_space c then lex cs
      else if c = CHR ''-'' \<and> take 1 cs = ''-'' then lex (dropWhile (\<lambda>x. x \<noteq> NL) cs)
      else if c = SQ then
        (case quoted SQ cs of None \<Rightarrow> None
         | Some (s, r) \<Rightarrow> map_option ((#) (TStr s)) (lex r))
      else if c = DQ then
        (case quoted DQ cs of None \<Rightarrow> None
         | Some (s, r) \<Rightarrow> if s = [] then None else map_option ((#) (TIdent s)) (lex r))
      else if c = CHR ''$'' then
        (if takeWhile (is_digit 10) cs = [] then None
         else map_option ((#) (TParam (digits_value 10 (takeWhile (is_digit 10) cs))))
                (lex (dropWhile (is_digit 10) cs)))
      else if is_digit 10 c then
        map_option ((#) (TInt (int (digits_value 10 (c # takeWhile (is_digit 10) cs)))))
          (lex (dropWhile (is_digit 10) cs))
      else if c = CHR ''-'' \<and> takeWhile (is_digit 10) cs \<noteq> [] then
        map_option ((#) (TInt (- int (digits_value 10 (takeWhile (is_digit 10) cs)))))
          (lex (dropWhile (is_digit 10) cs))
      else if ident_start c then
        (let w = lower (c # takeWhile ident_char cs) in
         map_option ((#) (case keyword_of w of None \<Rightarrow> TIdent w | Some k \<Rightarrow> TKw k))
           (lex (dropWhile ident_char cs)))
      else if c = CHR '','' then map_option ((#) TComma) (lex cs)
      else if c = CHR ''('' then map_option ((#) TLParen) (lex cs)
      else if c = CHR '')'' then map_option ((#) TRParen) (lex cs)
      else if c = CHR ''='' then map_option ((#) (TOp CEq)) (lex cs)
      else if c = CHR ''<'' \<and> take 1 cs = ''='' then map_option ((#) (TOp CLe)) (lex (drop 1 cs))
      else if c = CHR ''<'' \<and> take 1 cs = ''>'' then map_option ((#) (TOp CNe)) (lex (drop 1 cs))
      else if c = CHR ''<'' then map_option ((#) (TOp CLt)) (lex cs)
      else if c = CHR ''>'' \<and> take 1 cs = ''='' then map_option ((#) (TOp CGe)) (lex (drop 1 cs))
      else if c = CHR ''>'' then map_option ((#) (TOp CGt)) (lex cs)
      else if c = CHR ''!'' \<and> take 1 cs = ''='' then map_option ((#) (TOp CNe)) (lex (drop 1 cs))
      else None)"
  by pat_completeness auto
termination
proof (relation "measure length")
  show "wf (measure length)" by simp
qed (auto simp: less_Suc_eq_le length_dropWhile_le le_SucI dest: quoted_shorter)



declare lex.simps(2) [simp del]

subsection \<open>Statements\<close>

datatype operand = OCol string | OParam nat | OInt int | OStr string

datatype pred =
    PCmp operand cmp_op operand
  | PILike operand operand
  | PBetween operand operand operand
  | PIsNull operand
  | PIsNotNull operand

text \<open>
  The fragment has no parentheses in conditions, and \<open>AND\<close> binds tighter than \<open>OR\<close>:
  a condition is a disjunction of conjunctions of predicates. A select item is a
  column and the label it is returned under.
\<close>

type_synonym cond = "pred list list"
type_synonym sel_list = "(string \<times> string) list"

datatype stmt =
    Select sel_list string "cond option" "string option"
  | Insert string "string list" "operand list" sel_list
  | Update string "(string \<times> operand) list" "cond option" sel_list
  | Delete string "cond option" sel_list

fun split_on :: "token \<Rightarrow> token list \<Rightarrow> token list list" where
  "split_on sep [] = [[]]"
| "split_on sep (t # ts) =
     (if t = sep then [] # split_on sep ts
      else (case split_on sep ts of [] \<Rightarrow> [[t]] | p # ps \<Rightarrow> (t # p) # ps))"

text \<open>Splitting a conjunction at its \<open>AND\<close>s; the \<open>AND\<close> of a \<open>BETWEEN\<close> stays inside
  its predicate (\<open>btw\<close> says that a \<open>BETWEEN\<close> is waiting for it).\<close>

fun split_and :: "bool \<Rightarrow> token list \<Rightarrow> token list list" where
  "split_and btw [] = [[]]"
| "split_and btw (t # ts) =
     (if t = TKw K_AND \<and> \<not> btw then [] # split_and False ts
      else (case split_and (t \<noteq> TKw K_AND \<and> (btw \<or> t = TKw K_BETWEEN)) ts of
              [] \<Rightarrow> [[t]] | p # ps \<Rightarrow> (t # p) # ps))"

definition break_at :: "token \<Rightarrow> token list \<Rightarrow> (token list \<times> token list) option" where
  "break_at sep ts =
     (if sep \<in> set ts
      then Some (takeWhile (\<lambda>t. t \<noteq> sep) ts, drop 1 (dropWhile (\<lambda>t. t \<noteq> sep) ts))
      else None)"

definition parse_operand :: "token \<Rightarrow> operand option" where
  "parse_operand t =
     (case t of TIdent c \<Rightarrow> Some (OCol c) | TParam n \<Rightarrow> Some (OParam n)
      | TInt i \<Rightarrow> Some (OInt i) | TStr s \<Rightarrow> Some (OStr s) | _ \<Rightarrow> None)"

definition opt2 :: "('a \<Rightarrow> 'b \<Rightarrow> 'c) \<Rightarrow> 'a option \<Rightarrow> 'b option \<Rightarrow> 'c option" where
  "opt2 f a b = (case a of None \<Rightarrow> None | Some x \<Rightarrow> map_option (f x) b)"

definition parse_pred :: "token list \<Rightarrow> pred option" where
  "parse_pred ts =
     (case ts of
        [a, m, b] \<Rightarrow>
          (if m = TKw K_IS \<and> b = TKw K_NULL then map_option PIsNull (parse_operand a)
           else if m = TKw K_ILIKE then opt2 PILike (parse_operand a) (parse_operand b)
           else (case m of
                   TOp opr \<Rightarrow> opt2 (\<lambda>x y. PCmp x opr y) (parse_operand a) (parse_operand b)
                 | _ \<Rightarrow> None))
      | [a, m, n, b] \<Rightarrow>
          (if m = TKw K_IS \<and> n = TKw K_NOT \<and> b = TKw K_NULL
           then map_option PIsNotNull (parse_operand a) else None)
      | [a, m, lo, n, hi] \<Rightarrow>
          (if m = TKw K_BETWEEN \<and> n = TKw K_AND
           then (case parse_operand a of None \<Rightarrow> None
                 | Some x \<Rightarrow> opt2 (PBetween x) (parse_operand lo) (parse_operand hi))
           else None)
      | _ \<Rightarrow> None)"

definition parse_cond :: "token list \<Rightarrow> cond option" where
  "parse_cond ts =
     those (map (\<lambda>conj. those (map parse_pred (split_and False conj)))
                (split_on (TKw K_OR) ts))"

definition parse_sel_item :: "token list \<Rightarrow> (string \<times> string) option" where
  "parse_sel_item ts =
     (case ts of
        [TIdent c] \<Rightarrow> Some (c, c)
      | [TIdent c, TKw K_AS, TIdent l] \<Rightarrow> Some (c, l)
      | _ \<Rightarrow> None)"

definition parse_sel_list :: "token list \<Rightarrow> sel_list option" where
  "parse_sel_list ts = those (map parse_sel_item (split_on TComma ts))"

definition parse_assign :: "token list \<Rightarrow> (string \<times> operand) option" where
  "parse_assign ts =
     (case ts of
        [TIdent c, TOp CEq, v] \<Rightarrow> map_option (Pair c) (parse_operand v)
      | _ \<Rightarrow> None)"

definition parse_column :: "token list \<Rightarrow> string option" where
  "parse_column ts = (case ts of [TIdent c] \<Rightarrow> Some c | _ \<Rightarrow> None)"

definition parse_value :: "token list \<Rightarrow> operand option" where
  "parse_value ts = (case ts of [v] \<Rightarrow> parse_operand v | _ \<Rightarrow> None)"

text \<open>An optional \<open>WHERE\<close> clause: no tokens, or \<open>WHERE\<close> and a condition.\<close>

definition parse_where :: "token list \<Rightarrow> cond option option" where
  "parse_where ts =
     (case ts of
        [] \<Rightarrow> Some None
      | t # cs \<Rightarrow> if t = TKw K_WHERE then map_option Some (parse_cond cs) else None)"

definition parse_order :: "token list \<Rightarrow> (token list \<times> string option) option" where
  "parse_order ts =
     (case break_at (TKw K_ORDER) ts of
        None \<Rightarrow> Some (ts, None)
      | Some (w, rest) \<Rightarrow>
          (case rest of
             [b, TIdent c] \<Rightarrow> if b = TKw K_BY then Some (w, Some c) else None
           | _ \<Rightarrow> None))"

definition parse_select :: "token list \<Rightarrow> stmt option" where
  "parse_select ts =
     (case break_at (TKw K_FROM) ts of
        None \<Rightarrow> None
      | Some (sel, rest) \<Rightarrow>
          (case rest of
             TIdent tbl # rest2 \<Rightarrow>
               (case parse_order rest2 of
                  None \<Rightarrow> None
                | Some (w, ord) \<Rightarrow>
                    opt2 (\<lambda>s c. Select s tbl c ord) (parse_sel_list sel) (parse_where w))
           | _ \<Rightarrow> None))"

definition parse_insert :: "token list \<Rightarrow> stmt option" where
  "parse_insert ts =
     (case ts of
        TIdent tbl # TLParen # rest \<Rightarrow>
          (case break_at TRParen rest of
             None \<Rightarrow> None
           | Some (cols, rest2) \<Rightarrow>
               (case rest2 of
                  v # TLParen # rest3 \<Rightarrow>
                    (if v \<noteq> TKw K_VALUES then None
                     else (case break_at TRParen rest3 of
                             None \<Rightarrow> None
                           | Some (vals, rest4) \<Rightarrow>
                               (case rest4 of
                                  [] \<Rightarrow> None
                                | r # ret \<Rightarrow>
                                    if r \<noteq> TKw K_RETURNING then None
                                    else (case those (map parse_column (split_on TComma cols)) of
                                            None \<Rightarrow> None
                                          | Some cs \<Rightarrow>
                                              opt2 (Insert tbl cs)
                                                (those (map parse_value (split_on TComma vals)))
                                                (parse_sel_list ret)))))
                | _ \<Rightarrow> None))
      | _ \<Rightarrow> None)"

definition parse_update :: "token list \<Rightarrow> stmt option" where
  "parse_update ts =
     (case ts of
        TIdent tbl # s # rest \<Rightarrow>
          (if s \<noteq> TKw K_SET then None
           else (case break_at (TKw K_RETURNING) rest of
                   None \<Rightarrow> None
                 | Some (body, ret) \<Rightarrow>
                     (let asg = takeWhile (\<lambda>t. t \<noteq> TKw K_WHERE) body;
                          whr = dropWhile (\<lambda>t. t \<noteq> TKw K_WHERE) body
                      in case those (map parse_assign (split_on TComma asg)) of
                           None \<Rightarrow> None
                         | Some as \<Rightarrow>
                             opt2 (Update tbl as) (parse_where whr) (parse_sel_list ret))))
      | _ \<Rightarrow> None)"

definition parse_delete :: "token list \<Rightarrow> stmt option" where
  "parse_delete ts =
     (case ts of
        TIdent tbl # rest \<Rightarrow>
          (case break_at (TKw K_RETURNING) rest of
             None \<Rightarrow> None
           | Some (w, ret) \<Rightarrow> opt2 (Delete tbl) (parse_where w) (parse_sel_list ret))
      | _ \<Rightarrow> None)"

definition parse_stmt :: "token list \<Rightarrow> stmt option" where
  "parse_stmt ts =
     (case ts of
        [] \<Rightarrow> None
      | t # rest \<Rightarrow>
          if t = TKw K_SELECT then parse_select rest
          else if t = TKw K_UPDATE then parse_update rest
          else if t = TKw K_INSERT then
            (case rest of [] \<Rightarrow> None
             | i # rest2 \<Rightarrow> if i = TKw K_INTO then parse_insert rest2 else None)
          else if t = TKw K_DELETE then
            (case rest of [] \<Rightarrow> None
             | f # rest2 \<Rightarrow> if f = TKw K_FROM then parse_delete rest2 else None)
          else None)"

definition parse_sql :: "string \<Rightarrow> stmt option" where
  "parse_sql text = (case lex text of None \<Rightarrow> None | Some ts \<Rightarrow> parse_stmt ts)"



subsection \<open>Tables\<close>

text \<open>
  The two tables of section 3 of the specification. A company has a handle, a name, a
  description, a nullable employee count and a nullable logo URL. A job has a numeric
  identifier that the store assigns, a title, a nullable salary, a nullable equity (a
  decimal in \<open>[0, 1]\<close>) and the handle of the company that owns it, which must name a
  company of the store. The store keeps a counter for the next identifier.
\<close>

text \<open>The values of the columns. A decimal is kept as the number it denotes; the
  driver hands it to JavaScript as decimal text.\<close>

datatype sqlval = SNull | SInt int | SNum rat | SText string

datatype sqltype = TyInt | TyNumeric | TyText

record company_row =
  c_handle :: string
  c_name :: string
  c_description :: string
  c_num_employees :: "int option"
  c_logo_url :: "string option"

record job_row =
  j_id :: int
  j_title :: string
  j_salary :: "int option"
  j_equity :: "rat option"
  j_company_handle :: string

record db =
  companies :: "company_row list"
  jobs :: "job_row list"
  next_job_id :: int

text \<open>A row as a statement sees it and as a query returns it: labels with values.\<close>

type_synonym row = "(string \<times> sqlval) list"
type_synonym schema = "(string \<times> sqltype) list"

definition opt_val :: "('a \<Rightarrow> sqlval) \<Rightarrow> 'a option \<Rightarrow> sqlval" where
  "opt_val f v = (case v of None \<Rightarrow> SNull | Some x \<Rightarrow> f x)"

definition companies_schema :: schema where
  "companies_schema =
     [(''handle'', TyText), (''name'', TyText), (''description'', TyText),
      (''num_employees'', TyInt), (''logo_url'', TyText)]"

definition jobs_schema :: schema where
  "jobs_schema =
     [(''id'', TyInt), (''title'', TyText), (''salary'', TyInt), (''equity'', TyNumeric),
      (''company_handle'', TyText)]"

definition company_view :: "company_row \<Rightarrow> row" where
  "company_view r =
     [(''handle'', SText (c_handle r)), (''name'', SText (c_name r)),
      (''description'', SText (c_description r)),
      (''num_employees'', opt_val SInt (c_num_employees r)),
      (''logo_url'', opt_val SText (c_logo_url r))]"

definition job_view :: "job_row \<Rightarrow> row" where
  "job_view j =
     [(''id'', SInt (j_id j)), (''title'', SText (j_title j)),
      (''salary'', opt_val SInt (j_salary j)), (''equity'', opt_val SNum (j_equity j)),
      (''company_handle'', SText (j_company_handle j))]"

text \<open>Reading a value into a column: a column that is not nullable refuses \<open>NULL\<close>,
  and the equity refuses a value outside \<open>[0, 1]\<close>.\<close>

definition text_req :: "sqlval \<Rightarrow> store_error + string" where
  "text_req v = (case v of SText s \<Rightarrow> Inr s | SNull \<Rightarrow> Inl NotNullViolation
                 | _ \<Rightarrow> Inl DatatypeMismatch)"

definition text_opt :: "sqlval \<Rightarrow> store_error + string option" where
  "text_opt v = (case v of SText s \<Rightarrow> Inr (Some s) | SNull \<Rightarrow> Inr None
                 | _ \<Rightarrow> Inl DatatypeMismatch)"

definition int_req :: "sqlval \<Rightarrow> store_error + int" where
  "int_req v = (case v of SInt i \<Rightarrow> Inr i | SNull \<Rightarrow> Inl NotNullViolation
                | _ \<Rightarrow> Inl DatatypeMismatch)"

definition int_opt :: "sqlval \<Rightarrow> store_error + int option" where
  "int_opt v = (case v of SInt i \<Rightarrow> Inr (Some i) | SNull \<Rightarrow> Inr None
                | _ \<Rightarrow> Inl DatatypeMismatch)"

definition equity_opt :: "sqlval \<Rightarrow> store_error + rat option" where
  "equity_opt v =
     (case v of
        SNum q \<Rightarrow> if 0 \<le> q \<and> q \<le> 1 then Inr (Some q) else Inl CheckViolation
      | SInt i \<Rightarrow> if 0 \<le> i \<and> i \<le> 1 then Inr (Some (of_int i)) else Inl CheckViolation
      | SNull \<Rightarrow> Inr None
      | _ \<Rightarrow> Inl DatatypeMismatch)"

definition sbind :: "'e + 'a \<Rightarrow> ('a \<Rightarrow> 'e + 'b) \<Rightarrow> 'e + 'b" where
  "sbind m f = (case m of Inl e \<Rightarrow> Inl e | Inr x \<Rightarrow> f x)"

fun traverse :: "('a \<Rightarrow> 'e + 'b) \<Rightarrow> 'a list \<Rightarrow> 'e + 'b list" where
  "traverse f [] = Inr []"
| "traverse f (x # xs) = sbind (f x) (\<lambda>y. sbind (traverse f xs) (\<lambda>ys. Inr (y # ys)))"

definition company_set :: "string \<Rightarrow> sqlval \<Rightarrow> company_row \<Rightarrow> store_error + company_row" where
  "company_set c v r =
     (if c = ''handle'' then sbind (text_req v) (\<lambda>x. Inr (r\<lparr>c_handle := x\<rparr>))
      else if c = ''name'' then sbind (text_req v) (\<lambda>x. Inr (r\<lparr>c_name := x\<rparr>))
      else if c = ''description'' then sbind (text_req v) (\<lambda>x. Inr (r\<lparr>c_description := x\<rparr>))
      else if c = ''num_employees'' then sbind (int_opt v) (\<lambda>x. Inr (r\<lparr>c_num_employees := x\<rparr>))
      else if c = ''logo_url'' then sbind (text_opt v) (\<lambda>x. Inr (r\<lparr>c_logo_url := x\<rparr>))
      else Inl UndefinedColumn)"

definition job_set :: "string \<Rightarrow> sqlval \<Rightarrow> job_row \<Rightarrow> store_error + job_row" where
  "job_set c v j =
     (if c = ''id'' then sbind (int_req v) (\<lambda>x. Inr (j\<lparr>j_id := x\<rparr>))
      else if c = ''title'' then sbind (text_req v) (\<lambda>x. Inr (j\<lparr>j_title := x\<rparr>))
      else if c = ''salary'' then sbind (int_opt v) (\<lambda>x. Inr (j\<lparr>j_salary := x\<rparr>))
      else if c = ''equity'' then sbind (equity_opt v) (\<lambda>x. Inr (j\<lparr>j_equity := x\<rparr>))
      else if c = ''company_handle'' then
        sbind (text_req v) (\<lambda>x. Inr (j\<lparr>j_company_handle := x\<rparr>))
      else Inl UndefinedColumn)"

definition value_for :: "row \<Rightarrow> string \<Rightarrow> sqlval" where
  "value_for r c = (case map_of r c of None \<Rightarrow> SNull | Some v \<Rightarrow> v)"

text \<open>A new row from the values of an \<open>INSERT\<close>; a column that is not given is
  \<open>NULL\<close>.\<close>

definition company_of :: "row \<Rightarrow> store_error + company_row" where
  "company_of vs =
     sbind (text_req (value_for vs ''handle'')) (\<lambda>h.
     sbind (text_req (value_for vs ''name'')) (\<lambda>n.
     sbind (text_req (value_for vs ''description'')) (\<lambda>d.
     sbind (int_opt (value_for vs ''num_employees'')) (\<lambda>e.
     sbind (text_opt (value_for vs ''logo_url'')) (\<lambda>l.
       Inr \<lparr>c_handle = h, c_name = n, c_description = d, c_num_employees = e,
            c_logo_url = l\<rparr>)))))"

definition job_of :: "row \<Rightarrow> store_error + job_row" where
  "job_of vs =
     sbind (int_req (value_for vs ''id'')) (\<lambda>i.
     sbind (text_req (value_for vs ''title'')) (\<lambda>t.
     sbind (int_opt (value_for vs ''salary'')) (\<lambda>s.
     sbind (equity_opt (value_for vs ''equity'')) (\<lambda>q.
     sbind (text_req (value_for vs ''company_handle'')) (\<lambda>h.
       Inr \<lparr>j_id = i, j_title = t, j_salary = s, j_equity = q, j_company_handle = h\<rparr>)))))"

subsection \<open>Conditions\<close>

text \<open>
  A bind value is read into the type of the column it meets. The model is strict: a
  number goes into a numeric column (an integer column takes a whole number only), a
  string into a text column and \<open>null\<close> anywhere; the text forms of numbers, which the
  store would also read, are outside the fragment.
\<close>

definition coerce :: "sqltype \<Rightarrow> jsval \<Rightarrow> store_error + sqlval" where
  "coerce ty v =
     (case v of
        JNull \<Rightarrow> Inr SNull
      | JNum q \<Rightarrow>
          (case ty of
             TyInt \<Rightarrow> if q = of_int \<lfloor>q\<rfloor> then Inr (SInt \<lfloor>q\<rfloor>) else Inl DatatypeMismatch
           | TyNumeric \<Rightarrow> Inr (SNum q)
           | TyText \<Rightarrow> Inl DatatypeMismatch)
      | JStr s \<Rightarrow> (case ty of TyText \<Rightarrow> Inr (SText s) | _ \<Rightarrow> Inl DatatypeMismatch)
      | JBool b \<Rightarrow> Inl DatatypeMismatch)"

datatype cop = CCol string | CVal sqlval

datatype cpred =
    CCmp cop cmp_op cop
  | CILike cop cop
  | CBetween cop cop cop
  | CIsNull cop
  | CIsNotNull cop

definition numeric_type :: "sqltype \<Rightarrow> bool" where
  "numeric_type ty \<longleftrightarrow> ty \<noteq> TyText"

text \<open>The type the operands of a predicate meet at: that of the first column among
  them, else integer when a number is written, else text.\<close>

definition column_types :: "schema \<Rightarrow> operand list \<Rightarrow> sqltype list" where
  "column_types sch os =
     List.map_filter (\<lambda>x. case x of OCol c \<Rightarrow> map_of sch c | _ \<Rightarrow> None) os"

definition int_literal :: "operand \<Rightarrow> bool" where
  "int_literal x = (case x of OInt i \<Rightarrow> True | _ \<Rightarrow> False)"

definition target_type :: "schema \<Rightarrow> operand list \<Rightarrow> sqltype" where
  "target_type sch os =
     (case column_types sch os of
        ty # tys \<Rightarrow> ty
      | [] \<Rightarrow> if list_ex int_literal os then TyInt else TyText)"

definition compile_operand ::
    "schema \<Rightarrow> jsval list \<Rightarrow> sqltype \<Rightarrow> operand \<Rightarrow> store_error + cop" where
  "compile_operand sch params ty x =
     (case x of
        OCol c \<Rightarrow>
          (case map_of sch c of
             None \<Rightarrow> Inl UndefinedColumn
           | Some cty \<Rightarrow>
               if numeric_type cty = numeric_type ty then Inr (CCol c)
               else Inl DatatypeMismatch)
      | OInt i \<Rightarrow>
          (case ty of
             TyInt \<Rightarrow> Inr (CVal (SInt i))
           | TyNumeric \<Rightarrow> Inr (CVal (SNum (of_int i)))
           | TyText \<Rightarrow> Inl DatatypeMismatch)
      | OStr s \<Rightarrow> (case ty of TyText \<Rightarrow> Inr (CVal (SText s)) | _ \<Rightarrow> Inl DatatypeMismatch)
      | OParam n \<Rightarrow>
          if 1 \<le> n \<and> n \<le> length params
          then sbind (coerce ty (params ! (n - 1))) (\<lambda>v. Inr (CVal v))
          else Inl MissingParameter)"

definition compile_pred :: "schema \<Rightarrow> jsval list \<Rightarrow> pred \<Rightarrow> store_error + cpred" where
  "compile_pred sch params p =
     (case p of
        PCmp a opr b \<Rightarrow>
          sbind (compile_operand sch params (target_type sch [a, b]) a) (\<lambda>x.
          sbind (compile_operand sch params (target_type sch [a, b]) b) (\<lambda>y.
            Inr (CCmp x opr y)))
      | PILike a b \<Rightarrow>
          sbind (compile_operand sch params TyText a) (\<lambda>x.
          sbind (compile_operand sch params TyText b) (\<lambda>y.
            Inr (CILike x y)))
      | PBetween a lo hi \<Rightarrow>
          sbind (compile_operand sch params (target_type sch [a, lo, hi]) a) (\<lambda>x.
          sbind (compile_operand sch params (target_type sch [a, lo, hi]) lo) (\<lambda>y.
          sbind (compile_operand sch params (target_type sch [a, lo, hi]) hi) (\<lambda>z.
            Inr (CBetween x y z))))
      | PIsNull a \<Rightarrow>
          sbind (compile_operand sch params (target_type sch [a]) a) (\<lambda>x. Inr (CIsNull x))
      | PIsNotNull a \<Rightarrow>
          sbind (compile_operand sch params (target_type sch [a]) a) (\<lambda>x. Inr (CIsNotNull x)))"

definition compile_cond ::
    "schema \<Rightarrow> jsval list \<Rightarrow> cond option \<Rightarrow> store_error + cpred list list" where
  "compile_cond sch params w =
     (case w of
        None \<Rightarrow> Inr []
      | Some c \<Rightarrow> traverse (traverse (compile_pred sch params)) c)"

text \<open>Text is ordered by character codes, numbers by value.\<close>

fun text_less :: "string \<Rightarrow> string \<Rightarrow> bool" where
  "text_less [] [] = False"
| "text_less [] (y # ys) = True"
| "text_less (x # xs) [] = False"
| "text_less (x # xs) (y # ys) =
     ((of_char x :: nat) < of_char y \<or> (x = y \<and> text_less xs ys))"

definition cmp_holds :: "cmp_op \<Rightarrow> bool \<Rightarrow> bool \<Rightarrow> bool" where
  "cmp_holds opr lt eq =
     (case opr of CEq \<Rightarrow> eq | CNe \<Rightarrow> \<not> eq | CLt \<Rightarrow> lt | CLe \<Rightarrow> lt \<or> eq
      | CGt \<Rightarrow> \<not> lt \<and> \<not> eq | CGe \<Rightarrow> \<not> lt)"

definition num_of :: "sqlval \<Rightarrow> rat" where
  "num_of v = (case v of SInt i \<Rightarrow> of_int i | SNum q \<Rightarrow> q | _ \<Rightarrow> 0)"

text \<open>A comparison with \<open>NULL\<close> is unknown (\<open>None\<close>).\<close>

definition sql_compare :: "cmp_op \<Rightarrow> sqlval \<Rightarrow> sqlval \<Rightarrow> bool option" where
  "sql_compare opr a b =
     (if a = SNull \<or> b = SNull then None
      else (case (a, b) of
              (SText s, SText t) \<Rightarrow> Some (cmp_holds opr (text_less s t) (s = t))
            | (SText s, _) \<Rightarrow> None
            | (_, SText t) \<Rightarrow> None
            | _ \<Rightarrow> Some (cmp_holds opr (num_of a < num_of b) (num_of a = num_of b))))"

text \<open>\<open>LIKE\<close> patterns: \<open>%\<close> stands for any text, \<open>_\<close> for one character, and a
  backslash takes the next character literally.\<close>

fun like_match :: "string \<Rightarrow> string \<Rightarrow> bool" where
  "like_match [] s = (s = [])"
| "like_match (p # ps) [] = (p = CHR ''%'' \<and> like_match ps [])"
| "like_match (p # ps) (c # cs) =
     (if p = CHR ''%'' then like_match ps (c # cs) \<or> like_match (p # ps) cs
      else if p = CHR ''_'' then like_match ps cs
      else if p = CHR 0x5C then (case ps of [] \<Rightarrow> False | q # qs \<Rightarrow> q = c \<and> like_match qs cs)
      else p = c \<and> like_match ps cs)"

definition and3 :: "bool option \<Rightarrow> bool option \<Rightarrow> bool option" where
  "and3 a b =
     (if a = Some False \<or> b = Some False then Some False
      else if a = Some True \<and> b = Some True then Some True else None)"

definition or3 :: "bool option \<Rightarrow> bool option \<Rightarrow> bool option" where
  "or3 a b =
     (if a = Some True \<or> b = Some True then Some True
      else if a = Some False \<and> b = Some False then Some False else None)"

definition eval_cop :: "row \<Rightarrow> cop \<Rightarrow> sqlval" where
  "eval_cop r x = (case x of CVal v \<Rightarrow> v | CCol c \<Rightarrow> value_for r c)"

definition eval_cpred :: "row \<Rightarrow> cpred \<Rightarrow> bool option" where
  "eval_cpred r p =
     (case p of
        CCmp a opr b \<Rightarrow> sql_compare opr (eval_cop r a) (eval_cop r b)
      | CILike a b \<Rightarrow>
          (case (eval_cop r a, eval_cop r b) of
             (SText s, SText pat) \<Rightarrow> Some (like_match (lower pat) (lower s))
           | _ \<Rightarrow> None)
      | CBetween a lo hi \<Rightarrow>
          and3 (sql_compare CGe (eval_cop r a) (eval_cop r lo))
               (sql_compare CLe (eval_cop r a) (eval_cop r hi))
      | CIsNull a \<Rightarrow> Some (eval_cop r a = SNull)
      | CIsNotNull a \<Rightarrow> Some (eval_cop r a \<noteq> SNull))"

text \<open>A row qualifies when the condition is true of it, and not when it is false or
  unknown; with no \<open>WHERE\<close> clause every row qualifies.\<close>

definition qualifies :: "cpred list list \<Rightarrow> row \<Rightarrow> bool" where
  "qualifies cc r =
     (cc = [] \<or>
      foldr or3 (map (\<lambda>conj. foldr and3 (map (eval_cpred r) conj) (Some True)) cc)
        (Some False) = Some True)"



subsection \<open>Running a statement\<close>

definition check_columns :: "schema \<Rightarrow> string list \<Rightarrow> store_error + unit" where
  "check_columns sch cs =
     (if list_all (\<lambda>c. map_of sch c \<noteq> None) cs then Inr () else Inl UndefinedColumn)"

definition project :: "sel_list \<Rightarrow> row \<Rightarrow> row" where
  "project sel r = map (\<lambda>(c, l). (l, value_for r c)) sel"

text \<open>\<open>ORDER BY\<close> one column, ascending, \<open>NULL\<close> last; rows with equal keys keep their
  order.\<close>

definition key_le :: "sqlval \<Rightarrow> sqlval \<Rightarrow> bool" where
  "key_le a b \<longleftrightarrow> b = SNull \<or> (a \<noteq> SNull \<and> sql_compare CLe a b = Some True)"

fun insert_row :: "string \<Rightarrow> row \<Rightarrow> row list \<Rightarrow> row list" where
  "insert_row k r [] = [r]"
| "insert_row k r (x # xs) =
     (if key_le (value_for r k) (value_for x k) then r # x # xs else x # insert_row k r xs)"

definition order_rows :: "string option \<Rightarrow> row list \<Rightarrow> row list" where
  "order_rows ord rs = (case ord of None \<Rightarrow> rs | Some k \<Rightarrow> foldr (insert_row k) rs [])"

definition table_rows :: "string \<Rightarrow> db \<Rightarrow> (schema \<times> row list) option" where
  "table_rows tbl d =
     (if tbl = ''companies'' then Some (companies_schema, map company_view (companies d))
      else if tbl = ''jobs'' then Some (jobs_schema, map job_view (jobs d))
      else None)"

definition exec_select ::
    "sel_list \<Rightarrow> string \<Rightarrow> cond option \<Rightarrow> string option \<Rightarrow> jsval list \<Rightarrow> db
       \<Rightarrow> store_error + row list" where
  "exec_select sel tbl w ord params d =
     (case table_rows tbl d of
        None \<Rightarrow> Inl UndefinedTable
      | Some (sch, rows) \<Rightarrow>
          sbind (check_columns sch (map fst sel @ (case ord of None \<Rightarrow> [] | Some k \<Rightarrow> [k]))) (\<lambda>u.
          sbind (compile_cond sch params w) (\<lambda>cc.
            Inr (map (project sel) (order_rows ord (filter (qualifies cc) rows))))))"

text \<open>
  \<open>DELETE\<close>: the qualifying rows leave the table and are returned. The specification
  leaves open what happens to the jobs of a deleted company; the model removes them,
  which keeps every job's company in the store.
\<close>

definition exec_delete ::
    "string \<Rightarrow> cond option \<Rightarrow> sel_list \<Rightarrow> jsval list \<Rightarrow> db \<Rightarrow> (store_error + row list) \<times> db" where
  "exec_delete tbl w ret params d =
     (if tbl = ''companies'' then
        (case sbind (check_columns companies_schema (map fst ret)) (\<lambda>u.
                compile_cond companies_schema params w) of
           Inl e \<Rightarrow> (Inl e, d)
         | Inr cc \<Rightarrow>
             (let gone = filter (\<lambda>r. qualifies cc (company_view r)) (companies d) in
              (Inr (map (\<lambda>r. project ret (company_view r)) gone),
               d\<lparr>companies := filter (\<lambda>r. \<not> qualifies cc (company_view r)) (companies d),
                 jobs := filter (\<lambda>j. j_company_handle j \<notin> set (map c_handle gone)) (jobs d)\<rparr>)))
      else if tbl = ''jobs'' then
        (case sbind (check_columns jobs_schema (map fst ret)) (\<lambda>u.
                compile_cond jobs_schema params w) of
           Inl e \<Rightarrow> (Inl e, d)
         | Inr cc \<Rightarrow>
             (Inr (map (\<lambda>j. project ret (job_view j))
                     (filter (\<lambda>j. qualifies cc (job_view j)) (jobs d))),
              d\<lparr>jobs := filter (\<lambda>j. \<not> qualifies cc (job_view j)) (jobs d)\<rparr>))
      else (Inl UndefinedTable, d))"

text \<open>
  \<open>UPDATE\<close>: every assigned column must exist and be assigned once; the new values are
  read into the columns' types before any row is looked at; a qualifying row takes the
  new values, the right-hand sides being read in the row as it was. A changed handle
  must stay unique and must not leave a job without its company; a changed job must
  keep a unique identifier and a company of the store. The changed rows are returned
  with their new values.
\<close>

definition compile_assign ::
    "schema \<Rightarrow> jsval list \<Rightarrow> string \<times> operand \<Rightarrow> store_error + string \<times> cop" where
  "compile_assign sch params a =
     (case map_of sch (fst a) of
        None \<Rightarrow> Inl UndefinedColumn
      | Some ty \<Rightarrow> sbind (compile_operand sch params ty (snd a)) (\<lambda>x. Inr (fst a, x)))"

definition compile_assigns ::
    "schema \<Rightarrow> jsval list \<Rightarrow> (string \<times> operand) list \<Rightarrow> store_error + (string \<times> cop) list" where
  "compile_assigns sch params as =
     sbind (traverse (compile_assign sch params) as) (\<lambda>cs.
       if distinct (map fst as) then Inr cs else Inl SyntaxError)"

fun assign_all ::
    "(string \<Rightarrow> sqlval \<Rightarrow> 'r \<Rightarrow> store_error + 'r) \<Rightarrow> row \<Rightarrow> (string \<times> cop) list \<Rightarrow> 'r
       \<Rightarrow> store_error + 'r" where
  "assign_all setter old [] r = Inr r"
| "assign_all setter old (a # as) r =
     sbind (setter (fst a) (eval_cop old (snd a)) r) (assign_all setter old as)"

definition update_rows ::
    "(string \<Rightarrow> sqlval \<Rightarrow> 'r \<Rightarrow> store_error + 'r) \<Rightarrow> ('r \<Rightarrow> row) \<Rightarrow> cpred list list
       \<Rightarrow> (string \<times> cop) list \<Rightarrow> 'r list \<Rightarrow> store_error + 'r list" where
  "update_rows setter view cc as rs =
     traverse (\<lambda>r. if qualifies cc (view r) then assign_all setter (view r) as r else Inr r) rs"

definition changed_rows :: "('r \<Rightarrow> row) \<Rightarrow> cpred list list \<Rightarrow> 'r list \<Rightarrow> 'r list \<Rightarrow> 'r list" where
  "changed_rows view cc old new =
     map snd (filter (\<lambda>(r, r'). qualifies cc (view r)) (zip old new))"

definition exec_update ::
    "string \<Rightarrow> (string \<times> operand) list \<Rightarrow> cond option \<Rightarrow> sel_list \<Rightarrow> jsval list \<Rightarrow> db
       \<Rightarrow> (store_error + row list) \<times> db" where
  "exec_update tbl as w ret params d =
     (if tbl = ''companies'' then
        (case sbind (check_columns companies_schema (map fst ret)) (\<lambda>u.
              sbind (compile_assigns companies_schema params as) (\<lambda>cs.
              sbind (compile_cond companies_schema params w) (\<lambda>cc.
              sbind (update_rows company_set company_view cc cs (companies d)) (\<lambda>new.
                if map c_handle new = map c_handle (companies d) then Inr (cc, new)
                else if \<not> distinct (map c_handle new) then Inl UniqueViolation
                else if \<not> list_all (\<lambda>j. j_company_handle j \<in> set (map c_handle new)) (jobs d)
                then Inl ForeignKeyViolation
                else Inr (cc, new))))) of
           Inl e \<Rightarrow> (Inl e, d)
         | Inr (cc, new) \<Rightarrow>
             (Inr (map (\<lambda>r. project ret (company_view r))
                     (changed_rows company_view cc (companies d) new)),
              d\<lparr>companies := new\<rparr>))
      else if tbl = ''jobs'' then
        (case sbind (check_columns jobs_schema (map fst ret)) (\<lambda>u.
              sbind (compile_assigns jobs_schema params as) (\<lambda>cs.
              sbind (compile_cond jobs_schema params w) (\<lambda>cc.
              sbind (update_rows job_set job_view cc cs (jobs d)) (\<lambda>new.
                if map j_id new \<noteq> map j_id (jobs d) \<and> \<not> distinct (map j_id new)
                then Inl UniqueViolation
                else if map j_company_handle new \<noteq> map j_company_handle (jobs d)
                      \<and> \<not> list_all (\<lambda>j. j_company_handle j \<in> set (map c_handle (companies d))) new
                then Inl ForeignKeyViolation
                else Inr (cc, new))))) of
           Inl e \<Rightarrow> (Inl e, d)
         | Inr (cc, new) \<Rightarrow>
             (Inr (map (\<lambda>j. project ret (job_view j)) (changed_rows job_view cc (jobs d) new)),
              d\<lparr>jobs := new\<rparr>))
      else (Inl UndefinedTable, d))"

text \<open>
  \<open>INSERT\<close> of one row: as many values as columns, each column once; the values are
  read into the columns' types. A company needs a handle no company has. A job that
  is given no identifier takes the counter's value, and the counter moves on; its
  identifier must be new and its company must be in the store. The new row goes to
  the end of the table and is returned.
\<close>

definition insert_values ::
    "schema \<Rightarrow> jsval list \<Rightarrow> string list \<Rightarrow> operand list \<Rightarrow> store_error + row" where
  "insert_values sch params cols vals =
     (if length cols \<noteq> length vals \<or> \<not> distinct cols then Inl SyntaxError
      else traverse
             (\<lambda>(c, v). case map_of sch c of
                  None \<Rightarrow> Inl UndefinedColumn
                | Some ty \<Rightarrow>
                    (case v of
                       OCol n \<Rightarrow> Inl UndefinedColumn
                     | _ \<Rightarrow> sbind (compile_operand sch params ty v)
                              (\<lambda>x. Inr (c, eval_cop [] x))))
             (zip cols vals))"

definition exec_insert ::
    "string \<Rightarrow> string list \<Rightarrow> operand list \<Rightarrow> sel_list \<Rightarrow> jsval list \<Rightarrow> db
       \<Rightarrow> (store_error + row list) \<times> db" where
  "exec_insert tbl cols vals ret params d =
     (if tbl = ''companies'' then
        (case sbind (check_columns companies_schema (map fst ret)) (\<lambda>u.
              sbind (insert_values companies_schema params cols vals) (\<lambda>vs.
              sbind (company_of vs) (\<lambda>r.
                if c_handle r \<in> set (map c_handle (companies d)) then Inl UniqueViolation
                else Inr r))) of
           Inl e \<Rightarrow> (Inl e, d)
         | Inr r \<Rightarrow> (Inr [project ret (company_view r)], d\<lparr>companies := companies d @ [r]\<rparr>))
      else if tbl = ''jobs'' then
        (case sbind (check_columns jobs_schema (map fst ret)) (\<lambda>u.
              sbind (insert_values jobs_schema params cols vals) (\<lambda>vs.
              sbind (job_of (if ''id'' \<in> set cols then vs
                             else (''id'', SInt (next_job_id d)) # vs)) (\<lambda>j.
                if j_id j \<in> set (map j_id (jobs d)) then Inl UniqueViolation
                else if j_company_handle j \<notin> set (map c_handle (companies d))
                then Inl ForeignKeyViolation
                else Inr j))) of
           Inl e \<Rightarrow> (Inl e, d)
         | Inr j \<Rightarrow>
             (Inr [project ret (job_view j)],
              d\<lparr>jobs := jobs d @ [j],
                next_job_id := (if ''id'' \<in> set cols then next_job_id d
                                else next_job_id d + 1)\<rparr>))
      else (Inl UndefinedTable, d))"

definition exec :: "stmt \<Rightarrow> jsval list \<Rightarrow> db \<Rightarrow> (store_error + row list) \<times> db" where
  "exec s params d =
     (case s of
        Select sel tbl w ord \<Rightarrow> (exec_select sel tbl w ord params d, d)
      | Insert tbl cols vals ret \<Rightarrow> exec_insert tbl cols vals ret params d
      | Update tbl as w ret \<Rightarrow> exec_update tbl as w ret params d
      | Delete tbl w ret \<Rightarrow> exec_delete tbl w ret params d)"

definition run_sql :: "string \<Rightarrow> jsval list \<Rightarrow> db \<Rightarrow> (store_error + row list) \<times> db" where
  "run_sql text params d =
     (case parse_sql text of None \<Rightarrow> (Inl SyntaxError, d) | Some s \<Rightarrow> exec s params d)"



section \<open>The connection\<close>

text \<open>
  Modelled from the spec: \<open>db.query\<close> of the module \<open>db\<close>, which is not among the
  sources; section 6 of the specification describes it. A connection is the store
  together with the list of the statements issued so far: \<open>db.query(text, params)\<close>
  appends the statement to the list and gives the store's answer.
\<close>

record conn =
  store :: db
  issued :: "(string \<times> jsval list) list"

definition db_query :: "string \<Rightarrow> jsval list \<Rightarrow> conn \<Rightarrow> (store_error + row list) \<times> conn" where
  "db_query text params c =
     (case run_sql text params (store c) of
        (res, d) \<Rightarrow> (res, \<lparr>store = d, issued = issued c @ [(text, params)]\<rparr>))"

text \<open>\<open>rows[0]\<close>, which is \<open>undefined\<close> for an empty list; a bind value that is
  \<open>undefined\<close> is sent as \<open>null\<close>.\<close>

definition first_row :: "row list \<Rightarrow> row option" where
  "first_row rows = (case rows of [] \<Rightarrow> None | r # rs \<Rightarrow> Some r)"


section \<open>models/company.js\<close>




definition company_findAll_sql :: string where
  "company_findAll_sql =
     ''SELECT handle,'' @ [NL] @ ''                  name,'' @ [NL] @
     ''                  description,'' @ [NL] @
     ''                  num_employees AS '' @ [DQ] @ ''numEmployees'' @ [DQ] @ '','' @ [NL] @
     ''                  logo_url AS '' @ [DQ] @ ''logoUrl'' @ [DQ] @ [NL] @
     ''           FROM companies'' @ [NL] @ ''           ORDER BY name''"

definition Company_findAll :: "conn \<Rightarrow> (error + row list) \<times> conn" where
  "Company_findAll c =
     (case db_query company_findAll_sql [] c of
        (Inl e, c1) \<Rightarrow> (Inl (StoreError e), c1)
      | (Inr companiesRes, c1) \<Rightarrow> (Inr companiesRes, c1))"

text \<open>
  The filters are the query string of the request as an object: every value is a
  string. \<open>a < b\<close> on two results of \<open>parseInt\<close> is false when either is \<open>NaN\<close>.
\<close>

definition js_less :: "int option \<Rightarrow> int option \<Rightarrow> bool" where
  "js_less a b = (case (a, b) of (Some x, Some y) \<Rightarrow> x < y | _ \<Rightarrow> False)"

definition company_filter_base :: string where
  "company_filter_base =
     [NL] @ ''      SELECT handle,'' @ [NL] @ ''            name,'' @ [NL] @
     ''            description,'' @ [NL] @
     ''            num_employees AS '' @ [DQ] @ ''numEmployees'' @ [DQ] @ '','' @ [NL] @
     ''            logo_url AS '' @ [DQ] @ ''logoUrl'' @ [DQ] @ [NL] @
     ''      FROM companies''"

text \<open>The part of \<open>Company.filter\<close> before the query: the statement it builds, or the
  error it throws.\<close>

definition company_filter_sql :: "string js_object \<Rightarrow> error + string" where
  "company_filter_sql filters =
     (let name = js_get filters ''name'';
          minEmployees = js_get filters ''minEmployees'';
          maxEmployees = js_get filters ''maxEmployees'';
          sql0 = company_filter_base;
          sql1 = (if name \<noteq> None
                  then sql0 @ '' WHERE name ILIKE '' @ [SQ] @ ''%'' @ template name @ ''%'' @ [SQ]
                  else sql0);
          sql2 = (if length (js_keys filters) > 1 \<and> name \<noteq> None then sql1 @ '' AND''
                  else if name = None then sql1 @ '' WHERE''
                  else sql1)
      in if minEmployees \<noteq> None \<and> maxEmployees \<noteq> None then
           (if js_less (parseInt (template maxEmployees)) (parseInt (template minEmployees))
            then Inl BadRequestError
            else Inr (sql2 @ '' num_employees BETWEEN '' @
                        number_text (parseInt (template minEmployees)) @ '' AND '' @
                        number_text (parseInt (template maxEmployees))))
         else if minEmployees \<noteq> None then
           Inr (sql2 @ '' num_employees > '' @ number_text (parseInt (template minEmployees)))
         else if maxEmployees \<noteq> None then
           Inr (sql2 @ '' num_employees < '' @ number_text (parseInt (template maxEmployees)))
         else Inr sql2)"

definition Company_filter :: "string js_object \<Rightarrow> conn \<Rightarrow> (error + row list) \<times> conn" where
  "Company_filter filters c =
     (case company_filter_sql filters of
        Inl e \<Rightarrow> (Inl e, c)
      | Inr sqlStmtForFilter \<Rightarrow>
          (case db_query sqlStmtForFilter [] c of
             (Inl e, c1) \<Rightarrow> (Inl (StoreError e), c1)
           | (Inr filteredRes, c1) \<Rightarrow> (Inr filteredRes, c1)))"

definition company_get_sql :: string where
  "company_get_sql =
     ''SELECT handle,'' @ [NL] @ ''                  name,'' @ [NL] @
     ''                  description,'' @ [NL] @
     ''                  num_employees AS '' @ [DQ] @ ''numEmployees'' @ [DQ] @ '','' @ [NL] @
     ''                  logo_url AS '' @ [DQ] @ ''logoUrl'' @ [DQ] @ [NL] @
     ''           FROM companies'' @ [NL] @ ''           WHERE handle = $1''"

definition Company_get :: "string \<Rightarrow> conn \<Rightarrow> (error + row) \<times> conn" where
  "Company_get handle c =
     (case db_query company_get_sql [JStr handle] c of
        (Inl e, c1) \<Rightarrow> (Inl (StoreError e), c1)
      | (Inr companyRes, c1) \<Rightarrow>
          (case first_row companyRes of
             None \<Rightarrow> (Inl NotFoundError, c1)
           | Some company \<Rightarrow> (Inr company, c1)))"

definition company_jsToSql :: "string \<rightharpoonup> string" where
  "company_jsToSql = map_of [(''numEmployees'', ''num_employees''), (''logoUrl'', ''logo_url'')]"

definition company_update_sql :: "string \<Rightarrow> string \<Rightarrow> string" where
  "company_update_sql set_cols handleVarIdx =
     ''UPDATE companies '' @ [NL] @
     ''                      SET '' @ set_cols @ '' '' @ [NL] @
     ''                      WHERE handle = '' @ handleVarIdx @ '' '' @ [NL] @
     ''                      RETURNING handle, '' @ [NL] @
     ''                                name, '' @ [NL] @
     ''                                description, '' @ [NL] @
     ''                                num_employees AS '' @ [DQ] @ ''numEmployees'' @ [DQ] @
     '', '' @ [NL] @
     ''                                logo_url AS '' @ [DQ] @ ''logoUrl'' @ [DQ]"

definition Company_update ::
    "string \<Rightarrow> jsval js_object \<Rightarrow> conn \<Rightarrow> (error + row) \<times> conn" where
  "Company_update handle data c =
     (case sqlForPartialUpdate data company_jsToSql of
        Inl e \<Rightarrow> (Inl e, c)
      | Inr u \<Rightarrow>
          (let handleVarIdx = ''$'' @ show_nat (length (values u) + 1);
               querySql = company_update_sql (setCols u) handleVarIdx
           in case db_query querySql (values u @ [JStr handle]) c of
                (Inl e, c1) \<Rightarrow> (Inl (StoreError e), c1)
              | (Inr result, c1) \<Rightarrow>
                  (case first_row result of
                     None \<Rightarrow> (Inl NotFoundError, c1)
                   | Some company \<Rightarrow> (Inr company, c1))))"

definition company_remove_sql :: string where
  "company_remove_sql =
     ''DELETE'' @ [NL] @ ''           FROM companies'' @ [NL] @
     ''           WHERE handle = $1'' @ [NL] @ ''           RETURNING handle''"

definition Company_remove :: "string \<Rightarrow> conn \<Rightarrow> (error + unit) \<times> conn" where
  "Company_remove handle c =
     (case db_query company_remove_sql [JStr handle] c of
        (Inl e, c1) \<Rightarrow> (Inl (StoreError e), c1)
      | (Inr result, c1) \<Rightarrow>
          (case first_row result of
             None \<Rightarrow> (Inl NotFoundError, c1)
           | Some company \<Rightarrow> (Inr (), c1)))"

section \<open>models/job.js\<close>




definition job_findAll_sql :: string where
  "job_findAll_sql =
     ''SELECT id, title, salary, equity, company_handle'' @ [NL] @
     ''           FROM jobs'' @ [NL] @ ''           ORDER BY salary''"

definition Job_findAll :: "conn \<Rightarrow> (error + row list) \<times> conn" where
  "Job_findAll c =
     (case db_query job_findAll_sql [] c of
        (Inl e, c1) \<Rightarrow> (Inl (StoreError e), c1)
      | (Inr jobsRes, c1) \<Rightarrow> (Inr jobsRes, c1))"

definition job_filter_base :: string where
  "job_filter_base =
     [NL] @ ''      SELECT id,'' @ [NL] @ ''            title,'' @ [NL] @
     ''            salary,'' @ [NL] @ ''            equity,'' @ [NL] @
     ''            company_handle'' @ [NL] @ ''      FROM jobs''"

text \<open>The body of the loop over the keys when there is more than one filter, and
  the loop; \<open>counter\<close> is the number of keys handled before this one.\<close>

definition job_filter_step :: "string js_object \<Rightarrow> string \<Rightarrow> nat \<Rightarrow> string \<Rightarrow> string" where
  "job_filter_step filters key counter sql =
     (let sql1 =
            (if key = ''title'' then
               sql @ '' title ILIKE '' @ [SQ] @ ''%'' @ template (js_get filters ''title'') @
                 ''%'' @ [SQ]
             else if key = ''minSalary'' then
               sql @ '' salary > '' @
                 number_text (parseInt (template (js_get filters ''minSalary'')))
             else if key = ''hasEquity'' then
               (if js_get filters ''hasEquity'' = Some ''true''
                then sql @ '' equity IS NOT NULL AND equity > 0''
                else if js_get filters ''hasEquity'' = Some ''false''
                then sql @ '' equity >= 0 OR equity IS NULL''
                else sql)
             else sql);
          counter1 = counter + 1
      in if counter1 < length (js_keys filters) then sql1 @ '' AND'' else sql1)"

primrec job_filter_loop :: "string js_object \<Rightarrow> string list \<Rightarrow> nat \<Rightarrow> string \<Rightarrow> string" where
  "job_filter_loop filters [] counter sql = sql"
| "job_filter_loop filters (key # rest) counter sql =
     job_filter_loop filters rest (counter + 1) (job_filter_step filters key counter sql)"

definition job_filter_sql :: "string js_object \<Rightarrow> string" where
  "job_filter_sql filters =
     (let sql0 = job_filter_base;
          sql1 =
            (if length (js_keys filters) = 1 then
               (if js_get filters ''title'' \<noteq> None then
                  sql0 @ '' WHERE title ILIKE '' @ [SQ] @ ''%'' @
                    template (js_get filters ''title'') @ ''%'' @ [SQ]
                else if js_get filters ''minSalary'' \<noteq> None then
                  sql0 @ '' WHERE salary > '' @
                    number_text (parseInt (template (js_get filters ''minSalary'')))
                else sql0 @ '' WHERE equity IS NOT NULL AND equity > 0'')
             else sql0)
      in if length (js_keys filters) > 1
         then job_filter_loop filters (js_keys filters) 0 (sql1 @ '' WHERE'')
         else sql1)"

definition Job_filter :: "string js_object \<Rightarrow> conn \<Rightarrow> (error + row list) \<times> conn" where
  "Job_filter filters c =
     (case db_query (job_filter_sql filters) [] c of
        (Inl e, c1) \<Rightarrow> (Inl (StoreError e), c1)
      | (Inr filteredRes, c1) \<Rightarrow> (Inr filteredRes, c1))"

definition job_get_sql :: string where
  "job_get_sql =
     ''SELECT title, salary, equity, company_handle'' @ [NL] @
     ''           FROM jobs'' @ [NL] @ ''           WHERE id = $1''"

definition Job_get :: "int \<Rightarrow> conn \<Rightarrow> (error + row) \<times> conn" where
  "Job_get job_id c =
     (case db_query job_get_sql [JNum (of_int job_id)] c of
        (Inl e, c1) \<Rightarrow> (Inl (StoreError e), c1)
      | (Inr jobRes, c1) \<Rightarrow>
          (case first_row jobRes of
             None \<Rightarrow> (Inl NotFoundError, c1)
           | Some job \<Rightarrow> (Inr job, c1)))"







section \<open>A sample store\<close>

text \<open>Three companies, the third without jobs, and three jobs: one with equity zero,
  one with positive equity and one with neither salary nor equity.\<close>

definition example_db :: db where
  "example_db =
     \<lparr>companies =
        [\<lparr>c_handle = ''c1'', c_name = ''C1'', c_description = ''Desc1'',
          c_num_employees = Some 1, c_logo_url = Some ''http://c1.img''\<rparr>,
         \<lparr>c_handle = ''c2'', c_name = ''C2'', c_description = ''Desc2'',
          c_num_employees = Some 2, c_logo_url = None\<rparr>,
         \<lparr>c_handle = ''c3'', c_name = ''C3'', c_description = ''Desc3'',
          c_num_employees = Some 3, c_logo_url = None\<rparr>],
      jobs =
        [\<lparr>j_id = 1, j_title = ''job1'', j_salary = Some 100, j_equity = Some 0,
          j_company_handle = ''c1''\<rparr>,
         \<lparr>j_id = 2, j_title = ''Job2'', j_salary = Some 250, j_equity = Some (123 / 10000),
          j_company_handle = ''c2''\<rparr>,
         \<lparr>j_id = 3, j_title = ''other'', j_salary = None, j_equity = None,
          j_company_handle = ''c2''\<rparr>],
      next_job_id = 4\<rparr>"

definition example_conn :: conn where
  "example_conn = \<lparr>store = example_db, issued = []\<rparr>"

section \<open>Reading the statements of the models\<close>

text \<open>
  Names for the parts of the statements that the proofs below take apart: the tokens
  and the parsed form of the builder's clause, the rows the models return, and the
  documented fields of the payloads.
\<close>

fun assign_tokens :: "nat \<Rightarrow> string list \<Rightarrow> token list" where
  "assign_tokens k [] = []"
| "assign_tokens k [c] = [TIdent c, TOp CEq, TParam (k + 1)]"
| "assign_tokens k (c # d # cs) =
     [TIdent c, TOp CEq, TParam (k + 1), TComma] @ assign_tokens (Suc k) (d # cs)"

definition plain_name :: "string \<Rightarrow> bool" where
  "plain_name c \<longleftrightarrow> c \<noteq> [] \<and> DQ \<notin> set c"

definition assignment :: "string \<Rightarrow> nat \<Rightarrow> string" where
  "assignment c idx = [DQ] @ c @ [DQ] @ ''=$'' @ show_nat (idx + 1)"

definition company_returning :: string where
  "company_returning =
     '' '' @ [NL] @
     ''                      RETURNING handle, '' @ [NL] @
     ''                                name, '' @ [NL] @
     ''                                description, '' @ [NL] @
     ''                                num_employees AS '' @ [DQ] @ ''numEmployees'' @ [DQ] @
     '', '' @ [NL] @
     ''                                logo_url AS '' @ [DQ] @ ''logoUrl'' @ [DQ]"

definition company_returning_tokens :: "token list" where
  "company_returning_tokens =
     [TIdent ''handle'', TComma, TIdent ''name'', TComma, TIdent ''description'', TComma,
      TIdent ''num_employees'', TKw K_AS, TIdent ''numEmployees'', TComma,
      TIdent ''logo_url'', TKw K_AS, TIdent ''logoUrl'']"

definition assigns :: "nat \<Rightarrow> string list \<Rightarrow> (string \<times> operand) list" where
  "assigns k cols = map_idx (\<lambda>c idx. (c, OParam (idx + 1))) k cols"

definition company_returning_list :: sel_list where
  "company_returning_list =
     [(''handle'', ''handle''), (''name'', ''name''), (''description'', ''description''),
      (''num_employees'', ''numEmployees''), (''logo_url'', ''logoUrl'')]"

definition job_public :: "job_row \<Rightarrow> row" where
  "job_public j =
     [(''title'', SText (j_title j)), (''salary'', opt_val SInt (j_salary j)),
      (''equity'', opt_val SNum (j_equity j)), (''company_handle'', SText (j_company_handle j))]"

definition company_public :: "company_row \<Rightarrow> row" where
  "company_public r =
     [(''handle'', SText (c_handle r)), (''name'', SText (c_name r)),
      (''description'', SText (c_description r)),
      (''numEmployees'', opt_val SInt (c_num_employees r)),
      (''logoUrl'', opt_val SText (c_logo_url r))]"

definition company_fields :: "string set" where
  "company_fields = {''name'', ''description'', ''numEmployees'', ''logoUrl''}"

definition company_columns :: "jsval js_object \<Rightarrow> string list" where
  "company_columns data = map (column_for company_jsToSql) (js_keys data)"

text \<open>What the store runs for \<open>Company.update\<close> with a payload that is not empty.\<close>

definition company_update_run :: "string \<Rightarrow> jsval js_object \<Rightarrow> db \<Rightarrow> (store_error + row list) \<times> db" where
  "company_update_run h data d =
     exec_update ''companies'' (assigns 0 (company_columns data))
       (Some [[PCmp (OCol ''handle'') CEq (OParam (length data + 1))]])
       company_returning_list (js_values data @ [JStr h]) d"

text \<open>A sequence of calls of \<open>Company.update\<close>, each a handle with a payload.\<close>

fun Company_updates :: "(string \<times> jsval js_object) list \<Rightarrow> conn \<Rightarrow> conn" where
  "Company_updates [] c = c"
| "Company_updates (call # calls) c =
     Company_updates calls (snd (Company_update (fst call) (snd call) c))"










text \<open>A job as \<open>create\<close>, \<open>findAll\<close> and \<open>filter\<close> return it: with its identifier.\<close>

definition job_full_list :: sel_list where
  "job_full_list =
     [(''id'', ''id''), (''title'', ''title''), (''salary'', ''salary''),
      (''equity'', ''equity''), (''company_handle'', ''company_handle'')]"

definition job_full :: "job_row \<Rightarrow> row" where
  "job_full j =
     [(''id'', SInt (j_id j)), (''title'', SText (j_title j)),
      (''salary'', opt_val SInt (j_salary j)), (''equity'', opt_val SNum (j_equity j)),
      (''company_handle'', SText (j_company_handle j))]"


section \<open>The partial-update clause builder\<close>

lemma map_idx_nth:
  "map_idx f k xs = map (\<lambda>i. f (xs ! i) (k + i)) [0..<length xs]"
proof (induction xs arbitrary: k)
  case Nil
  show ?case by simp
next
  case (Cons x xs)
  have "[0..<length (x # xs)] = 0 # map Suc [0..<length xs]"
    by (simp add: upt_conv_Cons map_Suc_upt del: upt_Suc)
  then show ?case
    by (simp add: Cons.IH comp_def del: upt_Suc)
qed

text \<open>
  C6. With an empty field set the builder fails with the bad-request error, whatever
  the name map holds. The builder takes no store, so nothing reaches one.
\<close>

theorem sqlForPartialUpdate_empty:
  "sqlForPartialUpdate [] jsToSql = Inl BadRequestError"
  by (simp add: sqlForPartialUpdate_def js_keys_def)






section \<open>The filter builders\<close>

lemma Job_filter_issued:
  "issued (snd (Job_filter filters c)) = issued c @ [(job_filter_sql filters, [])]"
  by (simp add: Job_filter_def db_query_def split: prod.splits sum.splits)

text \<open>
  C1. The statement that \<open>Job.filter\<close> and \<open>Company.filter\<close> issue carries the filter
  values in its text and comes with an empty list of bind values. Two requests with
  the same key and different values give different texts, and a title that closes
  the string literal turns the condition into one that every job meets: the request
  below returns all jobs of the sample store, none of which has the text in its title.
\<close>

theorem filter_sql_carries_values:
  "job_filter_sql [(''title'', ''a'')] \<noteq> job_filter_sql [(''title'', ''b'')]
   \<and> company_filter_sql [(''name'', ''a'')] \<noteq> company_filter_sql [(''name'', ''b'')]
   \<and> issued (snd (Job_filter [(''title'', ''a'')] example_conn))
       = [(job_filter_base @ '' WHERE title ILIKE '' @ [SQ] @ ''%a%'' @ [SQ], [])]
   \<and> fst (Job_filter
            [(''title'', ''zzz'' @ [SQ] @ '' OR '' @ [SQ] @ ''a'' @ [SQ] @ '' ILIKE '' @ [SQ] @ ''a'')]
            example_conn)
       = fst (Job_filter [] example_conn)
   \<and> fst (Job_filter [(''title'', ''zzz'')] example_conn) = Inr []"
  by code_simp

text \<open>
  C2. With \<open>hasEquity\<close> equal to \<open>false\<close> as the only filter, \<open>Job.filter\<close> builds the
  statement it builds for \<open>true\<close>, and of the three jobs of the sample store it returns
  only the one with positive equity. With a title and \<open>hasEquity\<close> equal to \<open>false\<close>
  the condition reads \<open>title ILIKE '%job%' AND equity >= 0 OR equity IS NULL\<close>, and
  the job titled \<open>other\<close>, whose equity is \<open>NULL\<close>, is returned although its title does
  not match.
\<close>

theorem Job_filter_hasEquity_false:
  "job_filter_sql [(''hasEquity'', ''false'')] = job_filter_sql [(''hasEquity'', ''true'')]
   \<and> fst (Job_filter [(''hasEquity'', ''false'')] example_conn)
       = Inr [[(''id'', SInt 2), (''title'', SText ''Job2''), (''salary'', SInt 250),
               (''equity'', SNum (123 / 10000)), (''company_handle'', SText ''c2'')]]
   \<and> fst (Job_findAll example_conn)
       = Inr [[(''id'', SInt 1), (''title'', SText ''job1''), (''salary'', SInt 100),
               (''equity'', SNum 0), (''company_handle'', SText ''c1'')],
              [(''id'', SInt 2), (''title'', SText ''Job2''), (''salary'', SInt 250),
               (''equity'', SNum (123 / 10000)), (''company_handle'', SText ''c2'')],
              [(''id'', SInt 3), (''title'', SText ''other''), (''salary'', SNull),
               (''equity'', SNull), (''company_handle'', SText ''c2'')]]
   \<and> fst (Job_filter [(''title'', ''job''), (''hasEquity'', ''false'')] example_conn)
       = Inr [[(''id'', SInt 1), (''title'', SText ''job1''), (''salary'', SInt 100),
               (''equity'', SNum 0), (''company_handle'', SText ''c1'')],
              [(''id'', SInt 2), (''title'', SText ''Job2''), (''salary'', SInt 250),
               (''equity'', SNum (123 / 10000)), (''company_handle'', SText ''c2'')],
              [(''id'', SInt 3), (''title'', SText ''other''), (''salary'', SNull),
               (''equity'', SNull), (''company_handle'', SText ''c2'')]]"
  by code_simp

lemma company_filter_sql_empty:
  "company_filter_sql [] = Inr (company_filter_base @ '' WHERE'')"
  by (simp add: company_filter_sql_def js_get_def js_keys_def)

lemma parse_company_filter_empty:
  "parse_sql (company_filter_base @ '' WHERE'') = None"
  by code_simp

text \<open>
  C3. With no filter, \<open>Company.filter\<close> issues the text that ends in \<open>WHERE\<close> with no
  condition after it; the store answers with a syntax error, in every state, where
  \<open>findAll\<close> returns the companies.
\<close>

theorem Company_filter_no_filters:
  "Company_filter [] c
     = (Inl (StoreError SyntaxError),
        \<lparr>store = store c, issued = issued c @ [(company_filter_base @ '' WHERE'', [])]\<rparr>)
   \<and> fst (Company_findAll example_conn)
       = Inr [[(''handle'', SText ''c1''), (''name'', SText ''C1''),
               (''description'', SText ''Desc1''), (''numEmployees'', SInt 1),
               (''logoUrl'', SText ''http://c1.img'')],
              [(''handle'', SText ''c2''), (''name'', SText ''C2''),
               (''description'', SText ''Desc2''), (''numEmployees'', SInt 2),
               (''logoUrl'', SNull)],
              [(''handle'', SText ''c3''), (''name'', SText ''C3''),
               (''description'', SText ''Desc3''), (''numEmployees'', SInt 3),
               (''logoUrl'', SNull)]]"
proof
  show "Company_filter [] c
     = (Inl (StoreError SyntaxError),
        \<lparr>store = store c, issued = issued c @ [(company_filter_base @ '' WHERE'', [])]\<rparr>)"
    by (simp add: Company_filter_def company_filter_sql_empty db_query_def run_sql_def
        parse_company_filter_empty)
next
  show "fst (Company_findAll example_conn)
       = Inr [[(''handle'', SText ''c1''), (''name'', SText ''C1''),
               (''description'', SText ''Desc1''), (''numEmployees'', SInt 1),
               (''logoUrl'', SText ''http://c1.img'')],
              [(''handle'', SText ''c2''), (''name'', SText ''C2''),
               (''description'', SText ''Desc2''), (''numEmployees'', SInt 2),
               (''logoUrl'', SNull)],
              [(''handle'', SText ''c3''), (''name'', SText ''C3''),
               (''description'', SText ''Desc3''), (''numEmployees'', SInt 3),
               (''logoUrl'', SNull)]]"
    by code_simp
qed



section \<open>The store reads the builder's clause\<close>

lemma digit_of_digit_char: "d < 10 \<Longrightarrow> digit_of (digit_char d) = Some d"
proof -
  assume "d < 10"
  moreover have "list_all (\<lambda>d. digit_of (digit_char d) = Some d) [0..<10]"
    by code_simp
  ultimately show ?thesis
    by (simp add: list_all_iff)
qed

lemma is_digit_digit_char: "d < 10 \<Longrightarrow> is_digit 10 (digit_char d)"
  by (simp add: is_digit_def digit_of_digit_char)

lemma show_nat_digits: "c \<in> set (show_nat n) \<Longrightarrow> is_digit 10 c"
proof (induction n arbitrary: c rule: show_nat.induct)
  case (1 n)
  show ?case
  proof (cases "n < 10")
    case True
    with "1.prems" show ?thesis
      by (simp add: show_nat.simps [of n] is_digit_digit_char)
  next
    case False
    with "1.prems" have "c \<in> set (show_nat (n div 10)) \<or> c = digit_char (n mod 10)"
      by (auto simp: show_nat.simps [of n])
    then show ?thesis
      using "1.IH" [OF False] by (auto simp: is_digit_digit_char)
  qed
qed

lemma show_nat_not_Nil: "show_nat n \<noteq> []"
  by (subst show_nat.simps) simp

lemma digits_value_snoc:
  "digits_value r (s @ [c]) = digits_value r s * r + the (digit_of c)"
  by (simp add: digits_value_def)

lemma digits_value_show_nat: "digits_value 10 (show_nat n) = n"
proof (induction n rule: show_nat.induct)
  case (1 n)
  show ?case
  proof (cases "n < 10")
    case True
    then show ?thesis
      by (simp add: show_nat.simps [of n] digits_value_def digit_of_digit_char)
  next
    case False
    then show ?thesis
      using "1.IH" [OF False]
      by (simp add: show_nat.simps [of n] digits_value_snoc digit_of_digit_char)
  qed
qed

lemma takeWhile_prefix:
  "(\<And>x. x \<in> set xs \<Longrightarrow> P x) \<Longrightarrow> rest = [] \<or> \<not> P (hd rest)
     \<Longrightarrow> takeWhile P (xs @ rest) = xs"
  by (cases rest) (simp_all add: takeWhile_append2)

lemma dropWhile_prefix:
  "(\<And>x. x \<in> set xs \<Longrightarrow> P x) \<Longrightarrow> rest = [] \<or> \<not> P (hd rest)
     \<Longrightarrow> dropWhile P (xs @ rest) = rest"
  by (cases rest) (simp_all add: dropWhile_append2)

lemma quoted_closed:
  "q \<notin> set s \<Longrightarrow> rest = [] \<or> hd rest \<noteq> q \<Longrightarrow> quoted q (s @ q # rest) = Some (s, rest)"
proof (induction s)
  case Nil
  then show ?case by (cases rest) auto
next
  case (Cons c s)
  then show ?case by (cases s) auto
qed

lemma lex_space: "sql_space c \<Longrightarrow> lex (c # cs) = lex cs"
  by (simp add: lex.simps)

lemma lex_quoted_ident:
  assumes "DQ \<notin> set name" "name \<noteq> []" "rest = [] \<or> hd rest \<noteq> DQ"
  shows "lex (DQ # name @ DQ # rest) = map_option ((#) (TIdent name)) (lex rest)"
  using assms by (simp add: lex.simps quoted_closed sql_space_def)

lemma lex_param:
  assumes "rest = [] \<or> \<not> is_digit 10 (hd rest)"
  shows "lex (CHR ''$'' # show_nat k @ rest) = map_option ((#) (TParam k)) (lex rest)"
proof -
  have t: "takeWhile (is_digit 10) (show_nat k @ rest) = show_nat k"
    using assms by (intro takeWhile_prefix) (auto simp: show_nat_digits)
  have d: "dropWhile (is_digit 10) (show_nat k @ rest) = rest"
    using assms by (intro dropWhile_prefix) (auto simp: show_nat_digits)
  show ?thesis
    by (simp add: lex.simps t d show_nat_not_Nil digits_value_show_nat sql_space_def)
qed

lemma lex_eq: "lex (CHR ''='' # cs) = map_option ((#) (TOp CEq)) (lex cs)"
  by (simp add: lex.simps sql_space_def is_digit_def digit_of_def ident_start_def is_upper_def is_lower_def)

lemma lex_comma: "lex (CHR '','' # cs) = map_option ((#) TComma) (lex cs)"
  by (simp add: lex.simps sql_space_def is_digit_def digit_of_def ident_start_def is_upper_def is_lower_def)

lemma lex_assignment:
  assumes "plain_name c" "rest = [] \<or> \<not> is_digit 10 (hd rest)"
  shows "lex (assignment c k @ rest)
           = map_option (\<lambda>ts. TIdent c # TOp CEq # TParam (k + 1) # ts) (lex rest)"
proof -
  have "lex (assignment c k @ rest) = lex (DQ # c @ DQ # (CHR ''='' # CHR ''$'' # show_nat (k + 1) @ rest))"
    by (simp add: assignment_def)
  also have "\<dots> = map_option ((#) (TIdent c)) (lex (CHR ''='' # CHR ''$'' # show_nat (k + 1) @ rest))"
    using assms(1) by (intro lex_quoted_ident) (auto simp: plain_name_def)
  also have "\<dots> = map_option (\<lambda>ts. TIdent c # TOp CEq # TParam (k + 1) # ts) (lex rest)"
    using assms(2) by (simp add: lex_eq lex_param option.map_comp comp_def)
  finally show ?thesis .
qed

lemma lex_set_clause:
  assumes "list_all plain_name cols" "rest = [] \<or> \<not> is_digit 10 (hd rest)"
  shows "lex (join '', '' (map_idx assignment k cols) @ rest)
           = map_option (\<lambda>ts. assign_tokens k cols @ ts) (lex rest)"
  using assms(1)
proof (induction cols arbitrary: k rule: induct_list012)
  case 1
  show ?case by (simp add: option.map_ident)
next
  case (2 c)
  then show ?case using assms(2) by (simp add: lex_assignment)
next
  case (3 c d cs)
  have tail: "lex (join '', '' (map_idx assignment (Suc k) (d # cs)) @ rest)
      = map_option (\<lambda>ts. assign_tokens (Suc k) (d # cs) @ ts) (lex rest)"
    using 3 by simp
  have "lex (join '', '' (map_idx assignment k (c # d # cs)) @ rest)
      = lex (assignment c k @ (CHR '','' # CHR '' '' # join '', '' (map_idx assignment (Suc k) (d # cs)) @ rest))"
    by simp
  also have "\<dots> = map_option (\<lambda>ts. TIdent c # TOp CEq # TParam (k + 1) # ts)
       (lex (CHR '','' # CHR '' '' # join '', '' (map_idx assignment (Suc k) (d # cs)) @ rest))"
    using 3(3) by (intro lex_assignment) (simp_all add: is_digit_def digit_of_def)
  also have "\<dots> = map_option (\<lambda>ts. assign_tokens k (c # d # cs) @ ts) (lex rest)"
  proof -
    have sep: "lex (CHR '','' # CHR '' '' # s) = map_option ((#) TComma) (lex s)" for s
      by (simp add: lex_comma lex_space sql_space_def)
    show ?thesis
      by (simp only: sep tail) (simp add: option.map_comp comp_def)
  qed
  finally show ?case .
qed

lemmas char_class_defs = sql_space_def ident_start_def ident_char_def is_upper_def is_lower_def
  is_digit_def digit_of_def lower_def lower_char_def keyword_of_def

lemma lex_update_companies_head:
  "lex (''UPDATE companies '' @ [NL] @ ''                      SET '' @ s)
     = map_option (\<lambda>ts. TKw K_UPDATE # TIdent ''companies'' # TKw K_SET # ts) (lex s)"
  by (simp add: lex.simps char_class_defs option.map_comp comp_def)

lemma lex_where_handle:
  "lex ('' '' @ [NL] @ ''                      WHERE handle = '' @ s)
     = map_option (\<lambda>ts. TKw K_WHERE # TIdent ''handle'' # TOp CEq # ts) (lex s)"
  by (simp add: lex.simps char_class_defs option.map_comp comp_def)

lemma lex_company_returning:
  "lex company_returning = Some (TKw K_RETURNING # company_returning_tokens)"
  by code_simp

lemma company_update_sql_split:
  "company_update_sql sc hv
     = ''UPDATE companies '' @ [NL] @ ''                      SET '' @
       (sc @ ('' '' @ [NL] @ ''                      WHERE handle = '' @ (hv @ company_returning)))"
  by (simp add: company_update_sql_def company_returning_def)

lemma lex_company_update:
  assumes "list_all plain_name cols"
  shows "lex (company_update_sql (join '', '' (map_idx assignment 0 cols)) (''$'' @ show_nat m))
     = Some (TKw K_UPDATE # TIdent ''companies'' # TKw K_SET # assign_tokens 0 cols @
             TKw K_WHERE # TIdent ''handle'' # TOp CEq # TParam m # TKw K_RETURNING #
             company_returning_tokens)"
proof -
  have r1: "company_returning = [] \<or> \<not> is_digit 10 (hd company_returning)"
    by (simp add: company_returning_def is_digit_def digit_of_def)
  have p: "lex (''$'' @ show_nat m @ company_returning)
      = Some (TParam m # TKw K_RETURNING # company_returning_tokens)"
    using lex_param [OF r1, of m] by (simp add: lex_company_returning)
  have w: "lex ('' '' @ [NL] @ ''                      WHERE handle = '' @ (''$'' @ show_nat m @ company_returning))
      = Some (TKw K_WHERE # TIdent ''handle'' # TOp CEq # TParam m # TKw K_RETURNING #
              company_returning_tokens)"
    by (simp only: lex_where_handle p) simp
  have r2: "('' '' @ [NL] @ ''                      WHERE handle = '' @ (''$'' @ show_nat m @ company_returning)) = []
      \<or> \<not> is_digit 10 (hd ('' '' @ [NL] @ ''                      WHERE handle = '' @ (''$'' @ show_nat m @ company_returning)))"
    by (simp add: is_digit_def digit_of_def)
  show ?thesis
    unfolding company_update_sql_split
    by (simp only: lex_update_companies_head lex_set_clause [OF assms r2] w append_assoc) simp
qed

lemma assign_tokens_no_keyword: "TKw kw \<notin> set (assign_tokens k cols)"
  by (induction k cols rule: assign_tokens.induct) auto

lemma assigns_Cons: "assigns k (c # cs) = (c, OParam (k + 1)) # assigns (Suc k) cs"
  by (simp add: assigns_def)

lemma parse_assign_param:
  "parse_assign [TIdent c, TOp CEq, TParam m] = Some (c, OParam m)"
  by (simp add: parse_assign_def parse_operand_def)

lemma split_assign_tokens:
  "cols \<noteq> [] \<Longrightarrow> those (map parse_assign (split_on TComma (assign_tokens k cols)))
     = Some (assigns k cols)"
proof (induction k cols rule: assign_tokens.induct)
  case (1 k)
  then show ?case by simp
next
  case (2 k c)
  show ?case by (simp add: parse_assign_param assigns_def)
next
  case (3 k c d cs)
  then have "those (map parse_assign (split_on TComma (assign_tokens (Suc k) (d # cs))))
      = Some (assigns (Suc k) (d # cs))"
    by simp
  then show ?case
    by (simp add: parse_assign_param assigns_Cons del: assign_tokens.simps(3))
      (simp add: parse_assign_param assigns_Cons)
qed

lemma parse_where_key:
  "parse_where [TKw K_WHERE, TIdent key, TOp CEq, TParam m]
     = Some (Some [[PCmp (OCol key) CEq (OParam m)]])"
  by (simp add: parse_where_def parse_cond_def parse_pred_def parse_operand_def opt2_def)

lemma parse_update_tokens:
  assumes "cols \<noteq> []"
  shows "parse_stmt (TKw K_UPDATE # TIdent tbl # TKw K_SET # assign_tokens k cols @
           TKw K_WHERE # TIdent key # TOp CEq # TParam m # TKw K_RETURNING # ret)
     = map_option (Update tbl (assigns k cols) (Some [[PCmp (OCol key) CEq (OParam m)]]))
         (parse_sel_list ret)"
proof -
  let ?body = "assign_tokens k cols @ [TKw K_WHERE, TIdent key, TOp CEq, TParam m]"
  have nk: "\<And>t kw. t \<in> set (assign_tokens k cols) \<Longrightarrow> t \<noteq> TKw kw"
    using assign_tokens_no_keyword by metis
  have b: "break_at (TKw K_RETURNING)
             (assign_tokens k cols @
              TKw K_WHERE # TIdent key # TOp CEq # TParam m # TKw K_RETURNING # ret)
           = Some (?body, ret)"
    using nk by (simp add: break_at_def takeWhile_append2 dropWhile_append2)
  have t: "takeWhile (\<lambda>t. t \<noteq> TKw K_WHERE) ?body = assign_tokens k cols"
    using nk by (simp add: takeWhile_append2)
  have d: "dropWhile (\<lambda>t. t \<noteq> TKw K_WHERE) ?body = [TKw K_WHERE, TIdent key, TOp CEq, TParam m]"
    using nk by (simp add: dropWhile_append2)
  show ?thesis
    by (simp add: parse_stmt_def parse_update_def b t d Let_def
        split_assign_tokens [OF assms] parse_where_key opt2_def del: append.simps)
qed

lemma parse_company_returning:
  "parse_sel_list company_returning_tokens = Some company_returning_list"
  by code_simp

lemma parse_company_update:
  assumes "cols \<noteq> []" "list_all plain_name cols"
  shows "parse_sql (company_update_sql (join '', '' (map_idx assignment 0 cols)) (CHR ''$'' # show_nat m))
     = Some (Update ''companies'' (assigns 0 cols)
              (Some [[PCmp (OCol ''handle'') CEq (OParam m)]]) company_returning_list)"
  using lex_company_update [OF assms(2), of m]
  by (simp add: parse_sql_def parse_update_tokens [OF assms(1)] parse_company_returning)

section \<open>What the store answers\<close>

lemmas exec_defs = exec_def exec_select_def table_rows_def check_columns_def compile_cond_def
  compile_pred_def target_type_def column_types_def compile_operand_def coerce_def sbind_def
  companies_schema_def jobs_schema_def List.map_filter_simps numeric_type_def int_literal_def
  order_rows_def

lemmas eval_defs = qualifies_def eval_cpred_def eval_cop_def value_for_def company_view_def
  job_view_def sql_compare_def cmp_holds_def num_of_def and3_def or3_def project_def

lemma parse_job_get:
  "parse_sql job_get_sql
     = Some (Select [(''title'', ''title''), (''salary'', ''salary''), (''equity'', ''equity''),
                     (''company_handle'', ''company_handle'')]
               ''jobs'' (Some [[PCmp (OCol ''id'') CEq (OParam 1)]]) None)"
  by code_simp

lemma run_job_get:
  "run_sql job_get_sql [JNum (of_int i)] d
     = (Inr (map job_public (filter (\<lambda>j. j_id j = i) (jobs d))), d)"
  by (simp add: run_sql_def parse_job_get exec_defs eval_defs filter_map comp_def job_public_def)

lemma parse_company_get:
  "parse_sql company_get_sql
     = Some (Select [(''handle'', ''handle''), (''name'', ''name''),
                     (''description'', ''description''), (''num_employees'', ''numEmployees''),
                     (''logo_url'', ''logoUrl'')]
               ''companies'' (Some [[PCmp (OCol ''handle'') CEq (OParam 1)]]) None)"
  by code_simp

lemma run_company_get:
  "run_sql company_get_sql [JStr h] d
     = (Inr (map company_public (filter (\<lambda>r. c_handle r = h) (companies d))), d)"
  by (simp add: run_sql_def parse_company_get exec_defs eval_defs filter_map comp_def
      company_public_def)



lemma parse_company_remove:
  "parse_sql company_remove_sql
     = Some (Delete ''companies'' (Some [[PCmp (OCol ''handle'') CEq (OParam 1)]])
              [(''handle'', ''handle'')])"
  by code_simp

lemma gone_companies:
  "(x \<notin> set (map c_handle (filter (\<lambda>r. c_handle r = h) cs)))
     = (x = h \<longrightarrow> h \<notin> set (map c_handle cs))"
  by auto

lemma run_company_remove:
  "run_sql company_remove_sql [JStr h] d
     = (Inr (map (\<lambda>r. [(''handle'', SText (c_handle r))])
               (filter (\<lambda>r. c_handle r = h) (companies d))),
        d\<lparr>companies := filter (\<lambda>r. c_handle r \<noteq> h) (companies d),
          jobs := filter (\<lambda>j. j_company_handle j = h
                     \<longrightarrow> h \<notin> set (map c_handle (companies d))) (jobs d)\<rparr>)"
  by (simp add: run_sql_def parse_company_remove exec_defs exec_delete_def eval_defs
      gone_companies del: set_map set_filter)

lemma traverse_Cons_Inr:
  "traverse f (x # xs) = Inr ys
     \<longleftrightarrow> (\<exists>y zs. ys = y # zs \<and> f x = Inr y \<and> traverse f xs = Inr zs)"
  by (cases "f x"; cases "traverse f xs") (auto simp: sbind_def)

lemma traverse_Inr_iff:
  "traverse f xs = Inr ys \<longleftrightarrow> list_all2 (\<lambda>x y. f x = Inr y) xs ys"
proof (induction xs arbitrary: ys)
  case Nil
  show ?case by auto
next
  case (Cons x xs)
  show ?case
    unfolding traverse_Cons_Inr list_all2_Cons1 Cons.IH by blast
qed

lemma assigns_nth:
  "i < length cols \<Longrightarrow> assigns k cols ! i = (cols ! i, OParam (k + i + 1))"
  by (simp add: assigns_def map_idx_nth)

lemma length_assigns: "length (assigns k cols) = length cols"
  by (simp add: assigns_def map_idx_nth)

lemma map_fst_assigns: "map fst (assigns k cols) = cols"
  by (rule nth_equalityI) (simp_all add: length_assigns assigns_nth)


lemma compile_assigns_fst:
  "compile_assigns sch params as = Inr cs \<Longrightarrow> map fst cs = map fst as"
proof -
  assume "compile_assigns sch params as = Inr cs"
  then have "traverse (compile_assign sch params) as = Inr cs"
    by (auto simp: compile_assigns_def sbind_def split: sum.splits if_splits)
  then have "list_all2 (\<lambda>x y. compile_assign sch params x = Inr y) as cs"
    by (simp add: traverse_Inr_iff)
  then have "list_all2 (\<lambda>x y. fst y = fst x) as cs"
    by (rule list_all2_mono)
      (auto simp: compile_assign_def sbind_def split: option.splits sum.splits)
  then show ?thesis
    by (induction rule: list_all2_induct) auto
qed

lemma sbind_Inr_iff: "sbind m f = Inr y \<longleftrightarrow> (\<exists>x. m = Inr x \<and> f x = Inr y)"
  by (cases m) (auto simp: sbind_def)

lemma company_set_keeps_handle:
  "company_set c v r = Inr r' \<Longrightarrow> c \<noteq> ''handle'' \<Longrightarrow> c_handle r' = c_handle r"
  by (auto simp: company_set_def sbind_Inr_iff split: if_splits)


lemma assign_all_invariant:
  assumes "assign_all setter old as r = Inr r'"
    and "\<And>c v x x'. c \<in> fst ` set as \<Longrightarrow> setter c v x = Inr x' \<Longrightarrow> f x' = f x"
  shows "f r' = f r"
  using assms
proof (induction as arbitrary: r)
  case Nil
  then show ?case by simp
next
  case (Cons a as)
  from Cons.prems(1) obtain x where
    x: "setter (fst a) (eval_cop old (snd a)) r = Inr x" "assign_all setter old as x = Inr r'"
    by (auto simp: sbind_Inr_iff)
  have "f x = f r"
    using Cons.prems(2) [of "fst a"] x(1) by simp
  moreover have "f r' = f x"
  proof (rule Cons.IH [OF x(2)])
    fix c v y y'
    assume "c \<in> fst ` set as" "setter c v y = Inr y'"
    then show "f y' = f y"
      using Cons.prems(2) [of c v y y'] by auto
  qed
  ultimately show ?case by simp
qed

lemma update_rows_invariant:
  assumes "update_rows setter view cc as rs = Inr new"
    and "\<And>c v x x'. c \<in> fst ` set as \<Longrightarrow> setter c v x = Inr x' \<Longrightarrow> f x' = f x"
  shows "map f new = map f rs"
proof -
  from assms(1) have "list_all2
      (\<lambda>r r'. (if qualifies cc (view r) then assign_all setter (view r) as r else Inr r) = Inr r')
      rs new"
    by (simp add: update_rows_def traverse_Inr_iff)
  then have "list_all2 (\<lambda>r r'. f r' = f r) rs new"
    by (rule list_all2_mono) (auto split: if_splits dest: assign_all_invariant [OF _ assms(2)])
  then show ?thesis
    by (induction rule: list_all2_induct) auto
qed




lemma exec_update_companies_handles:
  assumes "''handle'' \<notin> set (map fst as)"
  shows "map c_handle (companies (snd (exec_update ''companies'' as w ret params d)))
           = map c_handle (companies d)
         \<and> jobs (snd (exec_update ''companies'' as w ret params d)) = jobs d
         \<and> next_job_id (snd (exec_update ''companies'' as w ret params d)) = next_job_id d"
proof -
  let ?X = "sbind (check_columns companies_schema (map fst ret)) (\<lambda>u.
              sbind (compile_assigns companies_schema params as) (\<lambda>cs.
              sbind (compile_cond companies_schema params w) (\<lambda>cc.
              sbind (update_rows company_set company_view cc cs (companies d)) (\<lambda>new.
                if map c_handle new = map c_handle (companies d) then Inr (cc, new)
                else if \<not> distinct (map c_handle new) then Inl UniqueViolation
                else if \<not> list_all (\<lambda>j. j_company_handle j \<in> set (map c_handle new)) (jobs d)
                then Inl ForeignKeyViolation
                else Inr (cc, new)))))"
  show ?thesis
  proof (cases ?X)
    case (Inl e)
    then show ?thesis by (simp add: exec_update_def)
  next
    case (Inr p)
    obtain cc new where p: "p = (cc, new)" by (cases p)
    from Inr p obtain cs where
      cs: "compile_assigns companies_schema params as = Inr cs"
      and new: "update_rows company_set company_view cc cs (companies d) = Inr new"
      by (auto simp: sbind_Inr_iff split: if_splits)
    have "map fst cs = map fst as" by (rule compile_assigns_fst [OF cs])
    with assms have nh: "''handle'' \<notin> fst ` set cs" by (metis set_map)
    have "map c_handle new = map c_handle (companies d)"
    proof (rule update_rows_invariant [OF new])
      fix c v x x'
      assume "c \<in> fst ` set cs" "company_set c v x = Inr x'"
      with nh show "c_handle x' = c_handle x"
        by (metis company_set_keeps_handle)
    qed
    with Inr p show ?thesis by (simp add: exec_update_def)
  qed
qed

lemma map_idx_map: "map_idx f k (map g xs) = map_idx (\<lambda>x i. f (g x) i) k xs"
  by (induction xs arbitrary: k) auto

lemma sqlForPartialUpdate_Inr:
  assumes "dataToUpdate \<noteq> []"
  shows "sqlForPartialUpdate dataToUpdate jsToSql
     = Inr \<lparr>setCols = join '', ''
               (map_idx assignment 0 (map (column_for jsToSql) (js_keys dataToUpdate))),
            values = js_values dataToUpdate\<rparr>"
  using assms
  by (simp add: sqlForPartialUpdate_def js_keys_def Let_def map_idx_map assignment_def)

lemma company_column_cases:
  "k \<in> company_fields \<Longrightarrow>
     column_for company_jsToSql k \<in> {''name'', ''description'', ''num_employees'', ''logo_url''}"
  by (auto simp: company_fields_def column_for_def company_jsToSql_def)

lemma company_columns_plain:
  assumes "set (js_keys data) \<subseteq> company_fields"
  shows "list_all plain_name (company_columns data)"
  unfolding company_columns_def list_all_iff
proof
  fix c assume "c \<in> set (map (column_for company_jsToSql) (js_keys data))"
  then obtain k where "k \<in> company_fields" "c = column_for company_jsToSql k"
    using assms by auto
  then have "c \<in> {''name'', ''description'', ''num_employees'', ''logo_url''}"
    using company_column_cases by simp
  then show "plain_name c" by (auto simp: plain_name_def)
qed

lemma company_columns_no_handle:
  assumes "set (js_keys data) \<subseteq> company_fields"
  shows "''handle'' \<notin> set (company_columns data)"
proof
  assume "''handle'' \<in> set (company_columns data)"
  then obtain k where "k \<in> company_fields" "''handle'' = column_for company_jsToSql k"
    using assms by (auto simp: company_columns_def)
  then have "''handle'' \<in> {''name'', ''description'', ''num_employees'', ''logo_url''}"
    using company_column_cases by metis
  then show False by simp
qed

lemma Company_update_unfold:
  assumes "data \<noteq> []" "list_all plain_name (company_columns data)"
  shows "fst (Company_update h data c)
           = (case fst (company_update_run h data (store c)) of
                Inl e \<Rightarrow> Inl (StoreError e)
              | Inr rows \<Rightarrow> (case first_row rows of None \<Rightarrow> Inl NotFoundError
                             | Some r \<Rightarrow> Inr r))"
    and "store (snd (Company_update h data c)) = snd (company_update_run h data (store c))"
proof -
  have ne: "company_columns data \<noteq> []"
    using assms(1) by (simp add: company_columns_def js_keys_def)
  have p: "parse_sql (company_update_sql (join '', '' (map_idx assignment 0 (company_columns data)))
             (CHR ''$'' # show_nat (Suc (length data))))
      = Some (Update ''companies'' (assigns 0 (company_columns data))
               (Some [[PCmp (OCol ''handle'') CEq (OParam (Suc (length data)))]])
               company_returning_list)"
    by (rule parse_company_update [OF ne assms(2)])
  show "fst (Company_update h data c)
           = (case fst (company_update_run h data (store c)) of
                Inl e \<Rightarrow> Inl (StoreError e)
              | Inr rows \<Rightarrow> (case first_row rows of None \<Rightarrow> Inl NotFoundError
                             | Some r \<Rightarrow> Inr r))"
    using p
    by (simp add: Company_update_def sqlForPartialUpdate_Inr [OF assms(1)] company_columns_def [symmetric]
        js_values_def db_query_def run_sql_def exec_def company_update_run_def
        split: prod.splits sum.splits option.splits)
  show "store (snd (Company_update h data c)) = snd (company_update_run h data (store c))"
    using p
    by (simp add: Company_update_def sqlForPartialUpdate_Inr [OF assms(1)] company_columns_def [symmetric]
        js_values_def db_query_def run_sql_def exec_def company_update_run_def
        split: prod.splits sum.splits option.splits)
qed

lemma Company_update_handles:
  assumes "set (js_keys data) \<subseteq> company_fields"
  shows "map c_handle (companies (store (snd (Company_update h data c))))
           = map c_handle (companies (store c))"
proof (cases "data = []")
  case True
  then show ?thesis
    by (simp add: Company_update_def sqlForPartialUpdate_def js_keys_def)
next
  case False
  have "''handle'' \<notin> set (map fst (assigns 0 (company_columns data)))"
    using company_columns_no_handle [OF assms] by (simp add: map_fst_assigns)
  from exec_update_companies_handles [OF this]
  show ?thesis
    by (simp add: Company_update_unfold(2) [OF False company_columns_plain [OF assms]]
        company_update_run_def)
qed

section \<open>Handles under update\<close>

lemma parse_company_findAll:
  "parse_sql company_findAll_sql
     = Some (Select company_returning_list ''companies'' None (Some ''name''))"
  by code_simp

lemma Company_get_store: "store (snd (Company_get h c)) = store c"
  by (simp add: Company_get_def db_query_def run_company_get split: list.splits option.splits)

lemma Company_findAll_store: "store (snd (Company_findAll c)) = store c"
  by (simp add: Company_findAll_def db_query_def run_sql_def parse_company_findAll exec_def
      split: sum.splits prod.splits)

lemma Company_remove_handles:
  "map c_handle (companies (store (snd (Company_remove h c))))
     = filter (\<lambda>x. x \<noteq> h) (map c_handle (companies (store c)))"
  by (simp add: Company_remove_def db_query_def run_company_remove filter_map comp_def
      split: list.splits option.splits)

lemma Company_updates_handles:
  assumes "\<forall>call \<in> set calls. set (js_keys (snd call)) \<subseteq> company_fields"
  shows "map c_handle (companies (store (Company_updates calls c)))
           = map c_handle (companies (store c))"
  using assms
proof (induction calls arbitrary: c)
  case Nil
  show ?case by simp
next
  case (Cons call calls)
  then show ?case
    by (simp add: Company_update_handles)
qed

text \<open>
  C7 (amended). A call of \<open>Company.update\<close> whose payload has fields among \<open>name\<close>,
  \<open>description\<close>, \<open>numEmployees\<close> and \<open>logoUrl\<close> (the fields the source documents)
  leaves the handle of every stored company as it was, and so does any sequence of
  such calls: the list of handles, row by row, is the same before and after.
  \<open>get\<close> and \<open>findAll\<close> leave the store as it is, and \<open>remove\<close> only takes the
  rows of its handle away.
\<close>

theorem Company_update_keeps_handles:
  assumes "\<forall>call \<in> set calls. set (js_keys (snd call)) \<subseteq> company_fields"
  shows "map c_handle (companies (store (Company_updates calls c)))
           = map c_handle (companies (store c))
         \<and> store (snd (Company_get h c)) = store c
         \<and> store (snd (Company_findAll c)) = store c
         \<and> map c_handle (companies (store (snd (Company_remove h c))))
             = filter (\<lambda>x. x \<noteq> h) (map c_handle (companies (store c)))"
  using Company_updates_handles [OF assms]
  by (simp add: Company_get_store Company_findAll_store Company_remove_handles)

theorem Company_update_keeps_handles_example:
  "map c_handle (companies (store example_conn)) = [''c1'', ''c2'', ''c3'']
   \<and> map c_handle (companies (store (Company_updates
         [(''c2'', [(''numEmployees'', JNum 7), (''name'', JStr ''New'')]),
          (''c3'', [(''logoUrl'', JNull)])] example_conn)))
       = [''c1'', ''c2'', ''c3'']
   \<and> map c_name (companies (store (Company_updates
         [(''c2'', [(''numEmployees'', JNum 7), (''name'', JStr ''New'')]),
          (''c3'', [(''logoUrl'', JNull)])] example_conn)))
       = [''C1'', ''New'', ''C3'']"
proof -
  let ?calls = "[(''c2'', [(''numEmployees'', JNum 7), (''name'', JStr ''New'')]),
          (''c3'', [(''logoUrl'', JNull)])]"
  have h: "\<forall>call \<in> set ?calls. set (js_keys (snd call)) \<subseteq> company_fields"
    by (simp add: js_keys_def company_fields_def)
  have a: "map c_handle (companies (store example_conn)) = [''c1'', ''c2'', ''c3'']"
    by code_simp
  have b: "map c_name (companies (store (Company_updates ?calls example_conn)))
       = [''C1'', ''New'', ''C3'']"
    by code_simp
  from Company_update_keeps_handles [OF h, of example_conn] a b
  show ?thesis by simp
qed

text \<open>
  C7, as stated, fails for a payload with the field \<open>handle\<close>: the builder
  passes the name through as a column, and the update gives the third company of the
  sample store, which has no jobs, the handle \<open>c9\<close>.
\<close>

theorem Company_update_changes_handle:
  "map c_handle (companies (store example_conn)) = [''c1'', ''c2'', ''c3'']
   \<and> fst (Company_update ''c3'' [(''handle'', JStr ''c9'')] example_conn)
       = Inr [(''handle'', SText ''c9''), (''name'', SText ''C3''),
              (''description'', SText ''Desc3''), (''numEmployees'', SInt 3),
              (''logoUrl'', SNull)]
   \<and> map c_handle (companies (store (snd
         (Company_update ''c3'' [(''handle'', JStr ''c9'')] example_conn))))
       = [''c1'', ''c2'', ''c9'']"
  by code_simp

section \<open>Absent entities\<close>
































lemma Job_get_store: "store (snd (Job_get i c)) = store c"
  by (simp add: Job_get_def db_query_def run_job_get split: list.splits option.splits)










section \<open>Creating twice\<close>











lemma project_job_full: "project job_full_list (job_view j) = job_full j"
  by (simp add: eval_defs job_full_list_def job_full_def)











section \<open>The rows the job model returns\<close>
























lemma Job_filter_no_filters:
  "fst (Job_filter [] c) = Inr (map job_full (jobs (store c)))"
proof -
  have p: "parse_sql job_filter_base = Some (Select job_full_list ''jobs'' None None)"
    by code_simp
  have s: "job_filter_sql [] = job_filter_base"
    by (simp add: job_filter_sql_def js_keys_def)
  have "run_sql job_filter_base [] (store c)
      = (Inr (map (project job_full_list) (map job_view (jobs (store c)))), store c)"
    by (simp add: run_sql_def p exec_defs job_full_list_def qualifies_def)
  then show ?thesis
    by (simp add: Job_filter_def s db_query_def comp_def project_job_full)
qed





end
